theory Spec2Isabelle
  imports Main "HOL-Library.AList"
begin

text \<open>
  A shallow embedding of the synchronisation core of the TaskMaster / Monday.com sync
  tool: the Monday.com client's retry wrapper and mutation batcher
  (\<^verbatim>\<open>src/api/mondayClient.js\<close>), the sync state manager
  (\<^verbatim>\<open>src/sync/syncStateManager.js\<close>), the task file module
  (\<^verbatim>\<open>src/sync/taskMasterIO.js\<close>), the push reconciler
  (\<^verbatim>\<open>src/sync/pushSyncLogic.js\<close>) and the pull reconciler
  (\<^verbatim>\<open>src/sync/pullSyncLogic.js\<close>).

  Conventions of the embedding.
  \<^item> A JavaScript \<^verbatim>\<open>Error\<close> is the value \<open>Error msg\<close>; a function that may throw
    returns \<open>error + 'a\<close> with \<open>Inl\<close> for the exception.
  \<^item> A task id is a JSON number or a JSON string (\<open>Num\<close>, \<open>Str\<close>): \<^verbatim>\<open>tasks.json\<close> has
    numbers, the Task ID column of a Monday item gives a string, and \<^verbatim>\<open>===\<close> tells them
    apart. Monday item ids, group ids and column ids are strings.
    \<^verbatim>\<open>undefined\<close>/\<^verbatim>\<open>null\<close> is \<open>None\<close>; zero and the empty string are falsy.
  \<^item> A plain JavaScript object used as a dictionary is an association list with distinct
    keys, in the order of the assignments: assigning to an existing key keeps its
    position, assigning to a new key appends it, \<^verbatim>\<open>delete\<close> removes it
    (\<open>AList.update\<close>, \<open>AList.delete\<close>, \<open>map_of\<close>). Enumerating the object
    (\<^verbatim>\<open>Object.entries\<close>, \<^verbatim>\<open>for ... in\<close>) lists the integer-like keys first, in ascending
    numeric order, then the other keys in the order of the assignments (\<open>own_entries\<close>).
  \<^item> Times are natural numbers of milliseconds.
\<close>

section \<open>Errors, truthiness and strings\<close>

datatype error = Error string

definition truthy :: "string \<Rightarrow> bool" where
  "truthy s = (s \<noteq> [])"

definition truthy_opt :: "string option \<Rightarrow> bool" where
  "truthy_opt x = (case x of None \<Rightarrow> False | Some s \<Rightarrow> truthy s)"

text \<open>\<^verbatim>\<open>Array.prototype.join\<close>.\<close>

fun join :: "string \<Rightarrow> string list \<Rightarrow> string" where
  "join sep [] = []"
| "join sep [x] = x"
| "join sep (x # y # ys) = x @ sep @ join sep (y # ys)"

text \<open>Decimal rendering of a number inside a template string.\<close>

definition digit :: "nat \<Rightarrow> char" where
  "digit d = ''0123456789'' ! d"

function string_of_nat :: "nat \<Rightarrow> string" where
  "string_of_nat n = (if n < 10 then [digit n] else string_of_nat (n div 10) @ [digit (n mod 10)])"
  by pat_completeness auto
termination
  by (relation "measure (\<lambda>n. n)") auto

declare string_of_nat.simps [simp del]

text \<open>\<^verbatim>\<open>a || b\<close> on an optional number: zero and \<^verbatim>\<open>undefined\<close> select the default.\<close>

definition or_default :: "nat option \<Rightarrow> nat \<Rightarrow> nat" where
  "or_default v d = (case v of None \<Rightarrow> d | Some n \<Rightarrow> if n = 0 then d else n)"

text \<open>
  A task id as JSON gives it. \<open>to_string\<close> is \<^verbatim>\<open>String(v)\<close>, \<^verbatim>\<open>v.toString()\<close> and the
  conversion of a property key or of a value inside a template string.
\<close>

datatype id_value = Num nat | Str string

definition to_string :: "id_value \<Rightarrow> string" where
  "to_string v = (case v of Num n \<Rightarrow> string_of_nat n | Str s \<Rightarrow> s)"

definition truthy_id :: "id_value \<Rightarrow> bool" where
  "truthy_id v = (case v of Num n \<Rightarrow> n \<noteq> 0 | Str s \<Rightarrow> s \<noteq> [])"

definition truthy_id_opt :: "id_value option \<Rightarrow> bool" where
  "truthy_id_opt x = (case x of None \<Rightarrow> False | Some v \<Rightarrow> truthy_id v)"

text \<open>\<^verbatim>\<open>String(x)\<close> of an id that may be \<^verbatim>\<open>undefined\<close>.\<close>

definition to_string_opt :: "id_value option \<Rightarrow> string" where
  "to_string_opt x = (case x of None \<Rightarrow> ''undefined'' | Some v \<Rightarrow> to_string v)"

text \<open>
  The order in which JavaScript enumerates the own keys of an object. A key is
  integer-like when it is the decimal text, without leading zeros, of a number below
  \<open>2\<^sup>3\<^sup>2 - 1\<close>.
\<close>

definition digit_value :: "char \<Rightarrow> nat option" where
  "digit_value c =
     map_of [(CHR ''0'', 0), (CHR ''1'', 1), (CHR ''2'', 2), (CHR ''3'', 3), (CHR ''4'', 4),
             (CHR ''5'', 5), (CHR ''6'', 6), (CHR ''7'', 7), (CHR ''8'', 8), (CHR ''9'', 9)] c"

fun decimal :: "nat \<Rightarrow> string \<Rightarrow> nat option" where
  "decimal acc [] = Some acc"
| "decimal acc (c # cs) =
     (case digit_value c of None \<Rightarrow> None | Some d \<Rightarrow> decimal (10 * acc + d) cs)"

definition array_index :: "string \<Rightarrow> nat option" where
  "array_index k =
     (if k = [] then None
      else if hd k = CHR ''0'' \<and> k \<noteq> ''0'' then None
      else (case decimal 0 k of
              Some n \<Rightarrow> if n < 4294967295 then Some n else None
            | None \<Rightarrow> None))"

definition own_entries :: "(string \<times> 'a) list \<Rightarrow> (string \<times> 'a) list" where
  "own_entries xs =
     sort_key (\<lambda>(k, v). case array_index k of Some n \<Rightarrow> n | None \<Rightarrow> 0)
       (filter (\<lambda>(k, v). array_index k \<noteq> None) xs)
     @ filter (\<lambda>(k, v). array_index k = None) xs"

section \<open>Monday.com client: retry wrapper\<close>

text \<open>
  \<^verbatim>\<open>monday.api(query, {variables})\<close> is the transport of the SDK, outside the repository.
  One call either rejects with an error or resolves with a response that carries an
  optional list of error messages and optional data (a dictionary of results, each a
  JSON text; the empty text stands for \<^verbatim>\<open>null\<close>). The transport is a parameter:
  \<open>api query variables k\<close> is what the \<open>k\<close>-th call (counted from 0) of one
  \<^verbatim>\<open>executeQuery\<close> invocation does.
\<close>

record response =
  resp_errors :: "string list"
  resp_data :: "(string \<times> string) list option"

datatype api_outcome = Rejects error | Resolves response

type_synonym transport = "string \<Rightarrow> (string \<times> string) list \<Rightarrow> nat \<Rightarrow> api_outcome"

definition DEFAULT_MAX_RETRIES :: nat where
  "DEFAULT_MAX_RETRIES = 3"

definition DEFAULT_RETRY_DELAY_MS :: nat where
  "DEFAULT_RETRY_DELAY_MS = 1000"


record client_options =
  opt_maxRetries :: "nat option"
  opt_retryDelayMs :: "nat option"
  opt_maxBatchSize :: "nat option"

definition maxRetries :: "client_options \<Rightarrow> nat" where
  "maxRetries opts = or_default (opt_maxRetries opts) DEFAULT_MAX_RETRIES"

definition retryDelayMs :: "client_options \<Rightarrow> nat" where
  "retryDelayMs opts = or_default (opt_retryDelayMs opts) DEFAULT_RETRY_DELAY_MS"


text \<open>
  The body of the \<^verbatim>\<open>try\<close> block of one attempt: a rejected call throws; a response with
  errors and no data throws \<^verbatim>\<open>Monday.com API errors: ...\<close>; anything else is returned.
\<close>

definition attempt_result :: "api_outcome \<Rightarrow> error + response" where
  "attempt_result out =
     (case out of
        Rejects e \<Rightarrow> Inl e
      | Resolves r \<Rightarrow>
          if resp_errors r \<noteq> [] \<and> resp_data r = None
          then Inl (Error (''Monday.com API errors: '' @ join '', '' (resp_errors r)))
          else Inr r)"

text \<open>
  What one \<^verbatim>\<open>executeQuery\<close> invocation did: its outcome, the \<^verbatim>\<open>setTimeout\<close> delays it
  waited for, in order, and the number of transport calls it made.
\<close>

record query_run =
  outcome :: "error + response"
  waits :: "nat list"
  calls :: nat

text \<open>
  The \<^verbatim>\<open>for (let attempt = 0; attempt < maxRetries; attempt++)\<close> loop. Falling out of
  the loop throws \<^verbatim>\<open>lastError\<close>; with no attempt made \<^verbatim>\<open>lastError\<close> is \<^verbatim>\<open>null\<close> and
  reading its message is a \<^verbatim>\<open>TypeError\<close>.
\<close>

function executeQuery_loop ::
  "nat \<Rightarrow> nat \<Rightarrow> (nat \<Rightarrow> api_outcome) \<Rightarrow> nat \<Rightarrow> error option \<Rightarrow> nat list \<Rightarrow> query_run" where
  "executeQuery_loop n d api attempt lastError ws =
     (if attempt < n then
        (case attempt_result (api attempt) of
           Inr r \<Rightarrow> \<lparr>outcome = Inr r, waits = ws, calls = Suc attempt\<rparr>
         | Inl e \<Rightarrow>
             executeQuery_loop n d api (Suc attempt) (Some e)
               (if attempt < n - 1 then ws @ [d * 2 ^ attempt] else ws))
      else \<lparr>outcome = (case lastError of
                          Some e \<Rightarrow> Inl e
                        | None \<Rightarrow> Inl (Error ''Cannot read properties of null (reading message)'')),
            waits = ws, calls = attempt\<rparr>)"
  by pat_completeness auto
termination
  by (relation "measure (\<lambda>(n, d, api, attempt, lastError, ws). n - attempt)") auto

declare executeQuery_loop.simps [simp del]

definition executeQuery ::
  "client_options \<Rightarrow> transport \<Rightarrow> string \<Rightarrow> (string \<times> string) list \<Rightarrow> query_run" where
  "executeQuery opts api query variables =
     executeQuery_loop (maxRetries opts) (retryDelayMs opts) (api query variables) 0 None []"

section \<open>Monday.com client: mutation batcher\<close>

text \<open>
  The regular expression \<^verbatim>\<open>/mutation\s+(\w+)/i\<close>, on ASCII text. The two character
  classes are disjoint, so the leftmost match is found by taking, at the first position
  where it succeeds, the word \<^verbatim>\<open>mutation\<close> in any case, the longest run of white space
  and the longest run of word characters, both non-empty.
\<close>

definition is_space :: "char \<Rightarrow> bool" where
  "is_space c = (c \<in> set [CHR '' '', CHR 0x09, CHR 0x0A, CHR 0x0B, CHR 0x0C, CHR 0x0D])"


definition lower :: "char \<Rightarrow> char" where
  "lower c =
     (case map_of (zip ''ABCDEFGHIJKLMNOPQRSTUVWXYZ'' ''abcdefghijklmnopqrstuvwxyz'') c of
        Some l \<Rightarrow> l
      | None \<Rightarrow> c)"

definition toLowerCase :: "string \<Rightarrow> string" where
  "toLowerCase s = map lower s"



text \<open>
  A promise is pending until it is settled once; settling it again has no effect. The
  client keeps every promise it ever handed out in \<open>handles\<close>; a queue entry holds the
  position of its promise instead of the two closures \<^verbatim>\<open>resolvePromise\<close> and
  \<^verbatim>\<open>rejectPromise\<close>. A fulfilled promise carries the result, \<open>None\<close> for \<^verbatim>\<open>null\<close>.
\<close>

datatype promise = Pending | Fulfilled "string option" | Rejected error

record batch_entry =
  be_query :: string
  be_variables :: "(string \<times> string) list"
  be_handle :: nat
  be_index :: nat


definition settle :: "nat \<Rightarrow> promise \<Rightarrow> promise list \<Rightarrow> promise list" where
  "settle h p hs = (if h < length hs \<and> hs ! h = Pending then hs[h := p] else hs)"








definition reject_all :: "error \<Rightarrow> batch_entry list \<Rightarrow> promise list \<Rightarrow> promise list" where
  "reject_all err batch hs = fold (\<lambda>e. settle (be_handle e) (Rejected err)) batch hs"





section \<open>Sync state: the persisted mapping store\<close>

text \<open>
  The JSON document of \<^verbatim>\<open>.taskmaster_sync_state.json\<close>: the entry list
  \<open>taskMappings\<close>, the two derived indexes \<open>mondayToTaskMaster\<close> and
  \<open>taskMasterToMonday\<close>, and the legacy dictionary \<open>items\<close>. An entry written by
  \<^verbatim>\<open>updateSyncedTimestamp\<close> has the fields \<^verbatim>\<open>mondayItemId\<close>, \<^verbatim>\<open>taskmasterTaskId\<close> and
  \<^verbatim>\<open>timestamp\<close>; one written by \<^verbatim>\<open>storeUpdateIdForTask\<close> has \<^verbatim>\<open>taskId\<close>,
  \<^verbatim>\<open>mondayItemId\<close>, \<^verbatim>\<open>mondayUpdateId\<close> and \<^verbatim>\<open>lastSynced\<close>. A field that is absent from
  the document is the empty list, the empty dictionary or \<open>None\<close>. The task id of an
  entry of \<open>items\<close> and of \<open>mondayToTaskMaster\<close> is the value the caller passed, a number
  or a string; \<open>taskMappings\<close> holds its text, and \<open>taskMasterToMonday\<close> is keyed by its
  text, as property keys are.
\<close>

record item_entry =
  ie_taskmasterTaskId :: id_value
  ie_timestamp :: nat

record task_mapping =
  tm_mondayItemId :: string
  tm_taskmasterTaskId :: "string option"
  tm_timestamp :: "nat option"
  tm_taskId :: "string option"
  tm_mondayUpdateId :: "string option"
  tm_lastSynced :: "nat option"

record sync_state =
  version :: string
  lastSync :: "nat option"
  taskMappings :: "task_mapping list"
  mondayToTaskMaster :: "(string \<times> id_value) list"
  taskMasterToMonday :: "(string \<times> string list) list"
  items :: "(string \<times> item_entry) list"

definition getEmptySyncState :: sync_state where
  "getEmptySyncState =
     \<lparr>version = ''1.0'', lastSync = None, taskMappings = [], mondayToTaskMaster = [],
      taskMasterToMonday = [], items = []\<rparr>"

text \<open>\<^verbatim>\<open>Array.prototype.find\<close> followed by an update in place, and \<^verbatim>\<open>findIndex\<close> + \<^verbatim>\<open>splice\<close>.\<close>

fun update_first :: "('a \<Rightarrow> bool) \<Rightarrow> ('a \<Rightarrow> 'a) \<Rightarrow> 'a list \<Rightarrow> 'a list" where
  "update_first P f [] = []"
| "update_first P f (x # xs) = (if P x then f x # xs else x # update_first P f xs)"

fun remove_first :: "('a \<Rightarrow> bool) \<Rightarrow> 'a list \<Rightarrow> 'a list" where
  "remove_first P [] = []"
| "remove_first P (x # xs) = (if P x then xs else x # remove_first P xs)"

text \<open>
  The clean-up of the two indexes that \<^verbatim>\<open>removeSyncedItem\<close>, \<^verbatim>\<open>cleanupOldEntries\<close> and
  \<^verbatim>\<open>removeMondayItem\<close> each spell out: delete the forward entry when it is truthy; take
  the item out of the task's array, and delete the array when it becomes empty.
\<close>

definition unlink_forward ::
  "string \<Rightarrow> (string \<times> id_value) list \<Rightarrow> (string \<times> id_value) list" where
  "unlink_forward mondayItemId m2t =
     (case map_of m2t mondayItemId of
        Some t \<Rightarrow> if truthy_id t then AList.delete mondayItemId m2t else m2t
      | None \<Rightarrow> m2t)"

definition unlink_reverse ::
  "id_value \<Rightarrow> string \<Rightarrow> (string \<times> string list) list \<Rightarrow> (string \<times> string list) list" where
  "unlink_reverse taskId mondayItemId t2m =
     (if truthy_id taskId then
        (case map_of t2m (to_string taskId) of
           Some ids \<Rightarrow>
             if mondayItemId \<in> set ids then
               (if remove1 mondayItemId ids = [] then AList.delete (to_string taskId) t2m
                else AList.update (to_string taskId) (remove1 mondayItemId ids) t2m)
             else t2m
         | None \<Rightarrow> t2m)
      else t2m)"

text \<open>The in-memory part of \<^verbatim>\<open>updateSyncedTimestamp\<close>, between the read and the write.\<close>

definition updateSyncedTimestamp_state ::
  "string \<Rightarrow> id_value \<Rightarrow> nat \<Rightarrow> sync_state \<Rightarrow> sync_state" where
  "updateSyncedTimestamp_state mondayItemId taskmasterTaskId ts s =
     (let k = to_string taskmasterTaskId;
          t2m0 = (case map_of (taskMasterToMonday s) k of
                    None \<Rightarrow> AList.update k [] (taskMasterToMonday s)
                  | Some ids \<Rightarrow> taskMasterToMonday s)
      in s\<lparr>items := AList.update mondayItemId
                       \<lparr>ie_taskmasterTaskId = taskmasterTaskId, ie_timestamp = ts\<rparr> (items s),
            taskMappings :=
              (if list_ex (\<lambda>m. tm_mondayItemId m = mondayItemId) (taskMappings s) then
                 update_first (\<lambda>m. tm_mondayItemId m = mondayItemId)
                   (\<lambda>m. m\<lparr>tm_taskmasterTaskId := Some k, tm_timestamp := Some ts\<rparr>)
                   (taskMappings s)
               else taskMappings s @
                 [\<lparr>tm_mondayItemId = mondayItemId, tm_taskmasterTaskId = Some k,
                   tm_timestamp = Some ts, tm_taskId = None, tm_mondayUpdateId = None,
                   tm_lastSynced = None\<rparr>]),
            mondayToTaskMaster := AList.update mondayItemId taskmasterTaskId (mondayToTaskMaster s),
            taskMasterToMonday :=
              (case map_of t2m0 k of
                 Some ids \<Rightarrow>
                   if mondayItemId \<in> set ids then t2m0
                   else AList.update k (ids @ [mondayItemId]) t2m0
               | None \<Rightarrow> t2m0)\<rparr>)"

text \<open>
  The in-memory part of \<^verbatim>\<open>removeSyncedItem\<close>: the result says whether anything was
  removed, that is, whether the state is written back.
\<close>

definition removeSyncedItem_state :: "string \<Rightarrow> sync_state \<Rightarrow> bool \<times> sync_state" where
  "removeSyncedItem_state mondayItemId s =
     (let s1 = (case map_of (items s) mondayItemId of
                  Some ie \<Rightarrow>
                    s\<lparr>items := AList.delete mondayItemId (items s),
                      mondayToTaskMaster := unlink_forward mondayItemId (mondayToTaskMaster s),
                      taskMasterToMonday :=
                        unlink_reverse (ie_taskmasterTaskId ie) mondayItemId (taskMasterToMonday s)\<rparr>
                | None \<Rightarrow> s);
          found = list_ex (\<lambda>m. tm_mondayItemId m = mondayItemId) (taskMappings s1)
      in (map_of (items s) mondayItemId \<noteq> None \<or> found,
          s1\<lparr>taskMappings := remove_first (\<lambda>m. tm_mondayItemId m = mondayItemId) (taskMappings s1)\<rparr>))"

text \<open>
  \<^verbatim>\<open>cleanupOldEntries\<close>: old legacy items are deleted; then the indices of the old
  mappings are collected and visited from the highest to the lowest, each visit cleaning
  the indexes for the mapping at that index and splicing it out.
\<close>

definition cleanup_mapping_at :: "nat \<Rightarrow> sync_state \<Rightarrow> sync_state" where
  "cleanup_mapping_at index s =
     (let mapping = taskMappings s ! index;
          m2t = (if truthy (tm_mondayItemId mapping)
                 then unlink_forward (tm_mondayItemId mapping) (mondayToTaskMaster s)
                 else mondayToTaskMaster s);
          t2m = (case tm_taskmasterTaskId mapping of
                   Some t \<Rightarrow> unlink_reverse (Str t) (tm_mondayItemId mapping) (taskMasterToMonday s)
                 | None \<Rightarrow> taskMasterToMonday s)
      in s\<lparr>mondayToTaskMaster := m2t, taskMasterToMonday := t2m,
            taskMappings := take index (taskMappings s) @ drop (Suc index) (taskMappings s)\<rparr>)"

definition is_old :: "nat \<Rightarrow> nat \<Rightarrow> nat \<Rightarrow> bool" where
  "is_old now maxAgeMs ts = (now - ts > maxAgeMs)"

definition cleanupOldEntries_state :: "nat \<Rightarrow> nat \<Rightarrow> sync_state \<Rightarrow> nat \<times> sync_state" where
  "cleanupOldEntries_state now maxAgeMs s =
     (let itemsToRemove = map fst (filter (\<lambda>(k, d). is_old now maxAgeMs (ie_timestamp d)) (items s));
          s1 = s\<lparr>items := fold AList.delete itemsToRemove (items s)\<rparr>;
          mappingsToRemove =
            filter (\<lambda>i. case tm_timestamp (taskMappings s1 ! i) of
                           Some ts \<Rightarrow> ts \<noteq> 0 \<and> is_old now maxAgeMs ts
                         | None \<Rightarrow> False)
                   [0..<length (taskMappings s1)]
      in (length itemsToRemove + length mappingsToRemove,
          fold cleanup_mapping_at (rev mappingsToRemove) s1))"

text \<open>The in-memory part of \<^verbatim>\<open>removeMondayItem\<close>, once the item is known to be in \<open>items\<close>.\<close>

definition removeMondayItem_state :: "string \<Rightarrow> item_entry \<Rightarrow> sync_state \<Rightarrow> sync_state" where
  "removeMondayItem_state mondayItemId ie s =
     s\<lparr>items := AList.delete mondayItemId (items s),
       mondayToTaskMaster := unlink_forward mondayItemId (mondayToTaskMaster s),
       taskMasterToMonday := unlink_reverse (ie_taskmasterTaskId ie) mondayItemId (taskMasterToMonday s),
       taskMappings := remove_first (\<lambda>m. tm_mondayItemId m = mondayItemId) (taskMappings s)\<rparr>"

text \<open>The queries, on a state that was read.\<close>

definition getLastSyncedTimestamp_state :: "string \<Rightarrow> sync_state \<Rightarrow> nat option" where
  "getLastSyncedTimestamp_state mondayItemId s =
     (case map_of (items s) mondayItemId of
        Some ie \<Rightarrow> Some (ie_timestamp ie)
      | None \<Rightarrow>
          (case find (\<lambda>m. tm_mondayItemId m = mondayItemId) (taskMappings s) of
             Some m \<Rightarrow> (case tm_timestamp m of Some ts \<Rightarrow> if ts \<noteq> 0 then Some ts else None
                                               | None \<Rightarrow> None)
           | None \<Rightarrow> None))"

definition getMondayItemIdsForTask_state :: "id_value \<Rightarrow> sync_state \<Rightarrow> string list" where
  "getMondayItemIdsForTask_state taskmasterTaskId s =
     (let oldItems =
            map fst (filter (\<lambda>(k, d). ie_taskmasterTaskId d = taskmasterTaskId)
                       (own_entries (items s)))
      in if oldItems \<noteq> [] then oldItems
         else (case map_of (taskMasterToMonday s) (to_string taskmasterTaskId) of
                 Some ids \<Rightarrow> ids
               | None \<Rightarrow> []))"

definition getUpdateIdForTask_state :: "id_value \<Rightarrow> string \<Rightarrow> sync_state \<Rightarrow> string option" where
  "getUpdateIdForTask_state taskId mondayItemId s =
     (case find (\<lambda>m. tm_taskId m = Some (to_string taskId) \<and> tm_mondayItemId m = mondayItemId)
             (taskMappings s) of
        Some m \<Rightarrow> if truthy_opt (tm_mondayUpdateId m) then tm_mondayUpdateId m else None
      | None \<Rightarrow> None)"

definition removeUpdateIdForTask_state ::
  "id_value \<Rightarrow> string \<Rightarrow> nat \<Rightarrow> sync_state \<Rightarrow> sync_state option" where
  "removeUpdateIdForTask_state taskId mondayItemId now s =
     (case find (\<lambda>m. tm_taskId m = Some (to_string taskId) \<and> tm_mondayItemId m = mondayItemId)
             (taskMappings s) of
        Some m \<Rightarrow>
          if truthy_opt (tm_mondayUpdateId m) then
            Some (s\<lparr>taskMappings :=
                     update_first
                       (\<lambda>m. tm_taskId m = Some (to_string taskId) \<and> tm_mondayItemId m = mondayItemId)
                       (\<lambda>m. m\<lparr>tm_mondayUpdateId := None, tm_lastSynced := Some now\<rparr>)
                       (taskMappings s)\<rparr>)
          else None
      | None \<Rightarrow> None)"

text \<open>
  The indexes recomputed from the entry list: every entry with a task id contributes
  the pair of its two ids.
\<close>

definition mapping_pairs :: "sync_state \<Rightarrow> (string \<times> string) set" where
  "mapping_pairs s =
     {(tm_mondayItemId m, t) | m t. m \<in> set (taskMappings s) \<and> tm_taskmasterTaskId m = Some t}"

definition forward_pairs :: "sync_state \<Rightarrow> (string \<times> string) set" where
  "forward_pairs s = {(m, to_string t) | m t. map_of (mondayToTaskMaster s) m = Some t}"

definition reverse_pairs :: "sync_state \<Rightarrow> (string \<times> string) set" where
  "reverse_pairs s = {(m, t). \<exists>ids. map_of (taskMasterToMonday s) t = Some ids \<and> m \<in> set ids}"

definition indexes_consistent :: "sync_state \<Rightarrow> bool" where
  "indexes_consistent s = (forward_pairs s = mapping_pairs s \<and> reverse_pairs s = mapping_pairs s)"

section \<open>The world of one process\<close>

text \<open>
  Everything the reconcilers read or change is a field of one record: the clock, the
  source of fresh lock ids (\<^verbatim>\<open>uuidv4()\<close>), the file system as the state manager meets it,
  the lock file and the module's \<^verbatim>\<open>activeLocks\<close> entry for the sync file, the sync file
  itself, the manager's cache, the client's group cache, the local \<^verbatim>\<open>tasks.json\<close> and the
  cache of the task file module, the task file generator and the remote board.

  The remote service is not part of the repository. It is modelled as one board: its
  items, its groups, the updates (annotations) posted on it, the number from which the
  id of the next created item is made, a list of client calls that fail with a message
  after the client's retries, and the time one client call takes. An item as the client's
  \<^verbatim>\<open>getItems\<close> and \<^verbatim>\<open>getItem\<close> queries select it has an id, a name, a group and column
  values with their text; \<^verbatim>\<open>updated_at\<close> is a field of the items handed to
  \<^verbatim>\<open>compareItemsWithTasks\<close> that neither query selects.
\<close>

record column =
  col_id :: string
  col_text :: string

record monday_item =
  item_id :: string
  item_name :: string
  item_group :: string
  column_values :: "column list"
  updated_at :: "nat option"

datatype remote_op =
  GetBoardGroups | GetItems | GetItem string | CreateItem string | UpdateItemName string
  | UpdateItemColumnValues string | DeleteItem string | DeleteUpdate string

record remote =
  board_items :: "monday_item list"
  board_groups :: "string list"
  item_updates :: "string list"
  next_item :: nat
  faults :: "(remote_op \<times> string) list"
  latency :: nat

text \<open>
  A local task. The id and the dependencies are numbers or strings; the other fields the
  reconcilers look at are strings or absent. \<^verbatim>\<open>subtasks\<close> are opaque to the reconcilers
  and kept as texts.
\<close>

record task =
  task_id :: "id_value option"
  title :: "string option"
  status :: "string option"
  priority :: "string option"
  dependencies :: "id_value list option"
  description :: "string option"
  details :: "string option"
  testStrategy :: "string option"
  complexity :: "string option"
  monday_item_id :: "string option"
  subtasks :: "string list option"

text \<open>
  \<^verbatim>\<open>tasks.json\<close>: absent, unreadable, not parseable, parseable but neither a task array nor
  an object with a \<^verbatim>\<open>tasks\<close> array (the flag says whether it is an object with a \<^verbatim>\<open>tasks\<close>
  property), or a task array, bare or wrapped in an object with a \<^verbatim>\<open>tasks\<close> property (the
  flag). An element of the array is a task object or \<^verbatim>\<open>null\<close>; any other element that is
  not an object has no properties and is a task without fields.
\<close>

datatype tasks_file =
  TasksAbsent | TasksUnreadable string | TasksUnparseable string | TasksNotArray bool
  | TasksFile bool "task option list"

datatype sync_file = Missing | Corrupt | Valid sync_state

text \<open>
  The calls to the file system that the state manager awaits. A call listed in
  \<open>fs_faults\<close> fails with the listed message, an error whose code is neither \<^verbatim>\<open>EEXIST\<close>
  nor \<^verbatim>\<open>ENOENT\<close> (a missing or read-only directory, a permission that is not granted);
  every such call takes \<open>fs_ms\<close> milliseconds.
\<close>

datatype fs_op = LockCreate | LockStat | LockUnlink | LockRead | TempWrite | TempMove

record world =
  clock :: nat
  uuid_ctr :: nat
  fs_ms :: nat
  fs_faults :: "(fs_op \<times> string) list"
  lock_file :: "(nat \<times> nat) option"
  activeLocks :: "(nat \<times> nat) option"
  sync_file :: sync_file
  syncStateCache :: "sync_state option"
  cacheTimestamp :: "nat option"
  groupCache :: "(string list \<times> nat) option"
  tasks_json :: tasks_file
  tasksCache :: "(task option list \<times> nat) option"
  generate_fails :: bool
  generate_runs :: nat
  remote :: remote

text \<open>
  An \<^verbatim>\<open>async\<close> function is a function of the world that returns the new world and either
  the exception it threw or its result.
\<close>

type_synonym 'a io = "world \<Rightarrow> (error + 'a) \<times> world"

definition io_return :: "'a \<Rightarrow> 'a io" where
  "io_return x = (\<lambda>w. (Inr x, w))"

definition io_throw :: "error \<Rightarrow> 'a io" where
  "io_throw e = (\<lambda>w. (Inl e, w))"

definition io_bind :: "'a io \<Rightarrow> ('a \<Rightarrow> 'b io) \<Rightarrow> 'b io" where
  "io_bind m f = (\<lambda>w. case m w of (Inl e, w') \<Rightarrow> (Inl e, w') | (Inr x, w') \<Rightarrow> f x w')"

definition io_catch :: "'a io \<Rightarrow> (error \<Rightarrow> 'a io) \<Rightarrow> 'a io" where
  "io_catch m h = (\<lambda>w. case m w of (Inl e, w') \<Rightarrow> h e w' | (Inr x, w') \<Rightarrow> (Inr x, w'))"

definition message :: "error \<Rightarrow> string" where
  "message e = (case e of Error m \<Rightarrow> m)"

text \<open>One awaited call to the file system: the time it takes.\<close>

definition fs_call :: "world \<Rightarrow> world" where
  "fs_call w = w\<lparr>clock := clock w + fs_ms w\<rparr>"

definition fs_fault :: "world \<Rightarrow> fs_op \<Rightarrow> string option" where
  "fs_fault w call = map_of (fs_faults w) call"

section \<open>Sync state manager: lock, read, write\<close>

definition DEFAULT_SYNC_FILE :: string where
  "DEFAULT_SYNC_FILE = ''.taskmaster_sync_state.json''"

definition DEFAULT_LOCK_TIMEOUT_MS :: nat where
  "DEFAULT_LOCK_TIMEOUT_MS = 5000"

text \<open>
  \<^verbatim>\<open>acquireLock\<close>. The first argument counts the attempts that are left of
  \<^verbatim>\<open>maxAttempts = 1000\<close>; when none is left the loop ends and the function returns
  \<^verbatim>\<open>undefined\<close>. Creating the lock file with flag \<^verbatim>\<open>wx\<close> fails with \<^verbatim>\<open>EEXIST\<close> when the
  file is there, and any other error of the call is thrown on. After \<^verbatim>\<open>EEXIST\<close> the
  attempt times out, or looks at the age of the lock file and removes a stale one to try
  again at once, or waits 100 ms; an error of \<^verbatim>\<open>stat\<close> or \<^verbatim>\<open>unlink\<close> is thrown on. The lock
  file carries the time at which its creation was called. Nothing but this process
  changes the lock file, so \<^verbatim>\<open>stat\<close> never meets \<^verbatim>\<open>ENOENT\<close>; \<^verbatim>\<open>setTimeout(resolve, 100)\<close>
  takes 100 ms.
\<close>

definition lock_timeout :: "nat \<Rightarrow> error" where
  "lock_timeout timeoutMs =
     Error (''Failed to acquire lock for '' @ DEFAULT_SYNC_FILE @ '' after ''
            @ string_of_nat timeoutMs @ ''ms'')"

fun acquireLock_loop :: "nat \<Rightarrow> nat \<Rightarrow> nat \<Rightarrow> nat \<Rightarrow> nat option io" where
  "acquireLock_loop 0 timeoutMs lockId startTime w = (Inr None, w)"
| "acquireLock_loop (Suc n) timeoutMs lockId startTime w =
     (if (case activeLocks w of Some (i, t) \<Rightarrow> i = lockId | None \<Rightarrow> False)
      then (Inr (Some lockId), w)
      else
        (let w1 = fs_call w
         in case fs_fault w LockCreate of
              Some msg \<Rightarrow> (Inl (Error msg), w1)
            | None \<Rightarrow>
                (case lock_file w of
                   None \<Rightarrow>
                     (Inr (Some lockId),
                      w1\<lparr>lock_file := Some (lockId, clock w),
                         activeLocks := Some (lockId, clock w1)\<rparr>)
                 | Some (owner, mtime) \<Rightarrow>
                     if clock w1 - startTime > timeoutMs then (Inl (lock_timeout timeoutMs), w1)
                     else
                       (let w2 = fs_call w1
                        in case fs_fault w LockStat of
                             Some msg \<Rightarrow> (Inl (Error msg), w2)
                           | None \<Rightarrow>
                               if clock w2 - mtime > timeoutMs then
                                 (case fs_fault w LockUnlink of
                                    Some msg \<Rightarrow> (Inl (Error msg), fs_call w2)
                                  | None \<Rightarrow>
                                      acquireLock_loop n timeoutMs lockId startTime
                                        ((fs_call w2)\<lparr>lock_file := None\<rparr>))
                               else
                                 acquireLock_loop n timeoutMs lockId startTime
                                   (w2\<lparr>clock := clock w2 + 100\<rparr>)))))"

definition acquireLock :: "nat \<Rightarrow> nat option io" where
  "acquireLock timeoutMs w =
     acquireLock_loop 1000 timeoutMs (uuid_ctr w) (clock w) (w\<lparr>uuid_ctr := Suc (uuid_ctr w)\<rparr>)"

text \<open>
  \<^verbatim>\<open>releaseLock\<close> never throws. It gives up when the module holds another lock id for the
  file, and removes the lock file only when the file holds the given id; an error of
  reading or removing the lock file makes it answer \<^verbatim>\<open>false\<close>.
\<close>

definition releaseLock :: "nat option \<Rightarrow> world \<Rightarrow> bool \<times> world" where
  "releaseLock lockId w =
     (if (case activeLocks w of Some (i, t) \<Rightarrow> Some i \<noteq> lockId | None \<Rightarrow> False) then (False, w)
      else
        (let w1 = fs_call (w\<lparr>activeLocks := None\<rparr>)
         in case lock_file w1 of
              None \<Rightarrow> (True, w1)
            | Some (owner, mtime) \<Rightarrow>
                if fs_fault w LockRead \<noteq> None then (False, w1)
                else if Some owner \<noteq> lockId then (False, w1)
                else if fs_fault w LockUnlink \<noteq> None then (False, fs_call w1)
                else (True, (fs_call w1)\<lparr>lock_file := None\<rparr>)))"

definition released :: "nat option \<Rightarrow> world \<Rightarrow> world" where
  "released lockId w = snd (releaseLock lockId w)"

text \<open>
  \<^verbatim>\<open>writeSyncState\<close> stamps \<^verbatim>\<open>lastSync\<close> on the object it was given before it asks for the
  lock. The flag \<open>shared\<close> says that this object is the one the cache holds (the caller
  got it from \<^verbatim>\<open>readSyncState\<close> and changed it in place), so the cache shows the change
  even when the write fails. The state goes to a temporary file that is moved over the
  sync file; an error of either call is thrown on after the temporary file was removed
  and the lock released. The function returns nothing; the model hands back the object
  as written, which the caller holds.
\<close>

definition writeSyncState :: "nat \<Rightarrow> sync_state \<Rightarrow> bool \<Rightarrow> sync_state io" where
  "writeSyncState timeoutMs syncState shared w =
     (let s1 = syncState\<lparr>lastSync := Some (clock w)\<rparr>;
          w0 = (if shared then w\<lparr>syncStateCache := Some s1\<rparr> else w)
      in case acquireLock timeoutMs w0 of
           (Inl e, w1) \<Rightarrow> (Inl e, w1)
         | (Inr lockId, w1) \<Rightarrow>
             (case fs_fault w TempWrite of
                Some msg \<Rightarrow> (Inl (Error msg), released lockId (fs_call (fs_call w1)))
              | None \<Rightarrow>
                  (case fs_fault w TempMove of
                     Some msg \<Rightarrow>
                       (Inl (Error msg), released lockId (fs_call (fs_call (fs_call w1))))
                   | None \<Rightarrow>
                       (let w2 = fs_call (fs_call w1)
                        in (Inr s1,
                            released lockId
                              (w2\<lparr>sync_file := Valid s1, syncStateCache := Some s1,
                                  cacheTimestamp := Some (clock w2)\<rparr>))))))"

definition cache_hit :: "world \<Rightarrow> sync_state option" where
  "cache_hit w =
     (case (syncStateCache w, cacheTimestamp w) of
        (Some s, Some t) \<Rightarrow> if t \<noteq> 0 \<and> clock w - t < 5000 then Some s else None
      | _ \<Rightarrow> None)"

text \<open>
  \<^verbatim>\<open>readSyncState\<close> returns the state together with the flag that it is the cached
  object. It asks for the lock before its \<^verbatim>\<open>try\<close>, so what \<^verbatim>\<open>acquireLock\<close> throws is thrown
  on. With no file it makes an empty state and calls \<^verbatim>\<open>writeSyncState\<close> while it holds the
  lock; whatever that call throws is caught with the parse errors, and a fresh empty
  state is returned. \<open>Corrupt\<close> is content that \<^verbatim>\<open>readFileSync\<close> or \<^verbatim>\<open>JSON.parse\<close> refuses.
\<close>

definition readSyncState :: "nat \<Rightarrow> bool \<Rightarrow> (sync_state \<times> bool) io" where
  "readSyncState timeoutMs bypassCache w =
     (case (if bypassCache then None else cache_hit w) of
        Some s \<Rightarrow> (Inr (s, True), w)
      | None \<Rightarrow>
          (case acquireLock timeoutMs w of
             (Inl e, w1) \<Rightarrow> (Inl e, w1)
           | (Inr lockId, w1) \<Rightarrow>
               (case sync_file w1 of
                  Missing \<Rightarrow>
                    (case writeSyncState timeoutMs getEmptySyncState False w1 of
                       (Inl e, w2) \<Rightarrow> (Inr (getEmptySyncState, False), released lockId w2)
                     | (Inr s, w2) \<Rightarrow> (Inr (s, True), released lockId w2))
                | Corrupt \<Rightarrow> (Inr (getEmptySyncState, False), released lockId w1)
                | Valid s \<Rightarrow>
                    (let w2 = released lockId w1
                     in (Inr (s, True),
                         w2\<lparr>syncStateCache := Some s, cacheTimestamp := Some (clock w2)\<rparr>)))))"

section \<open>Sync state manager: operations\<close>

definition getLastSyncedTimestamp :: "nat \<Rightarrow> string \<Rightarrow> nat option io" where
  "getLastSyncedTimestamp timeoutMs mondayItemId =
     io_bind (readSyncState timeoutMs False)
       (\<lambda>(s, shared). io_return (getLastSyncedTimestamp_state mondayItemId s))"

text \<open>The default of the parameter \<^verbatim>\<open>timestamp\<close> is the clock at the call.\<close>

definition updateSyncedTimestamp :: "nat \<Rightarrow> string \<Rightarrow> id_value \<Rightarrow> nat option \<Rightarrow> unit io" where
  "updateSyncedTimestamp timeoutMs mondayItemId taskmasterTaskId timestamp w =
     io_bind (readSyncState timeoutMs False)
       (\<lambda>(s, shared).
          io_bind (writeSyncState timeoutMs
                     (updateSyncedTimestamp_state mondayItemId taskmasterTaskId
                        (case timestamp of Some ts \<Rightarrow> ts | None \<Rightarrow> clock w) s)
                     shared)
            (\<lambda>s'. io_return ()))
       w"

definition removeSyncedItem :: "nat \<Rightarrow> string \<Rightarrow> bool io" where
  "removeSyncedItem timeoutMs mondayItemId =
     io_bind (readSyncState timeoutMs False)
       (\<lambda>(s, shared).
          case removeSyncedItem_state mondayItemId s of
            (True, s') \<Rightarrow> io_bind (writeSyncState timeoutMs s' shared) (\<lambda>w. io_return True)
          | (False, s') \<Rightarrow> io_return False)"

definition THIRTY_DAYS_MS :: nat where
  "THIRTY_DAYS_MS = 30 * 24 * 60 * 60 * 1000"

definition cleanupOldEntries :: "nat \<Rightarrow> nat option \<Rightarrow> nat io" where
  "cleanupOldEntries timeoutMs maxAgeMs =
     io_bind (readSyncState timeoutMs False)
       (\<lambda>(s, shared) w.
          case cleanupOldEntries_state (clock w)
                 (case maxAgeMs of Some a \<Rightarrow> a | None \<Rightarrow> THIRTY_DAYS_MS) s of
            (count, s') \<Rightarrow>
              if count > 0
              then io_bind (writeSyncState timeoutMs s' shared) (\<lambda>x. io_return count) w
              else io_return count w)"

definition getMondayItemIdsForTask :: "nat \<Rightarrow> id_value \<Rightarrow> string list io" where
  "getMondayItemIdsForTask timeoutMs taskmasterTaskId =
     io_bind (readSyncState timeoutMs False)
       (\<lambda>(s, shared). io_return (getMondayItemIdsForTask_state taskmasterTaskId s))"

definition getUpdateIdForTask :: "nat \<Rightarrow> id_value \<Rightarrow> string \<Rightarrow> string option io" where
  "getUpdateIdForTask timeoutMs taskId mondayItemId =
     io_bind (readSyncState timeoutMs False)
       (\<lambda>(s, shared). io_return (getUpdateIdForTask_state taskId mondayItemId s))"

definition removeUpdateIdForTask :: "nat \<Rightarrow> id_value \<Rightarrow> string \<Rightarrow> bool io" where
  "removeUpdateIdForTask timeoutMs taskId mondayItemId =
     io_bind (readSyncState timeoutMs False)
       (\<lambda>(s, shared) w.
          case removeUpdateIdForTask_state taskId mondayItemId (clock w) s of
            Some s' \<Rightarrow> io_bind (writeSyncState timeoutMs s' shared) (\<lambda>x. io_return True) w
          | None \<Rightarrow> io_return False w)"

text \<open>\<^verbatim>\<open>removeMondayItem\<close> refuses a falsy id before it reads anything.\<close>

definition removeMondayItem :: "nat \<Rightarrow> string option \<Rightarrow> bool io" where
  "removeMondayItem timeoutMs mondayItemId =
     (case mondayItemId of
        None \<Rightarrow> io_throw (Error ''Monday item ID is required'')
      | Some m \<Rightarrow>
          if \<not> truthy m then io_throw (Error ''Monday item ID is required'')
          else
            io_bind (readSyncState timeoutMs False)
              (\<lambda>(s, shared).
                 case map_of (items s) m of
                   None \<Rightarrow> io_return False
                 | Some ie \<Rightarrow>
                     io_bind (writeSyncState timeoutMs (removeMondayItem_state m ie s) shared)
                       (\<lambda>x. io_return True)))"

text \<open>Nobody holds the lock of the sync file.\<close>

definition lock_free :: "world \<Rightarrow> bool" where
  "lock_free w = (lock_file w = None \<and> activeLocks w = None)"

text \<open>
  The state a reader of the sync file sees: the content of the file, or the empty state
  when the file is missing or corrupt.
\<close>

definition stored :: "world \<Rightarrow> sync_state" where
  "stored w = (case sync_file w of Valid s \<Rightarrow> s | Missing \<Rightarrow> getEmptySyncState | Corrupt \<Rightarrow> getEmptySyncState)"

text \<open>
  A quiescent store on a sound disk: nobody holds the lock, a cached state is the state
  in the file, the keys of the legacy dictionary are distinct, as the keys of an object
  are, no call to the file system fails, and the calls take no measurable time.
\<close>

definition coherent :: "world \<Rightarrow> bool" where
  "coherent w = (\<forall>c. syncStateCache w = Some c \<longrightarrow> sync_file w = Valid c)"

definition store_ok :: "world \<Rightarrow> bool" where
  "store_ok w =
     (lock_free w \<and> coherent w \<and> distinct (map fst (items (stored w))) \<and>
      fs_faults w = [] \<and> fs_ms w = 0)"

text \<open>What a run must not touch in a dry run: the local tasks and their generated files, the board, the sync file.\<close>

definition untouched :: "world \<Rightarrow> world \<Rightarrow> bool" where
  "untouched w w' =
     (tasks_json w' = tasks_json w \<and> generate_runs w' = generate_runs w \<and>
      remote w' = remote w \<and> sync_file w' = sync_file w)"

text \<open>The task with this id text has a non-empty array in the reverse index.\<close>

definition index_mapped :: "string \<Rightarrow> sync_state \<Rightarrow> bool" where
  "index_mapped t s = (case map_of (taskMasterToMonday s) t of Some ids \<Rightarrow> ids \<noteq> [] | None \<Rightarrow> False)"

section \<open>Monday.com client: the calls the reconcilers make\<close>

text \<open>
  Each call of the client is one \<^verbatim>\<open>executeQuery\<close> with its retries; here it is taken by
  its outcome. A call takes \<open>latency\<close> milliseconds; a call listed in \<open>faults\<close> throws the
  listed message; any other call acts on the board. The board id is not modelled: there
  is one board.
\<close>

definition DEFAULT_CACHE_TTL_MS :: nat where
  "DEFAULT_CACHE_TTL_MS = 5 * 60 * 1000"

datatype colval = ColText string | ColLabel string

definition colval_text :: "colval \<Rightarrow> string" where
  "colval_text v = (case v of ColText s \<Rightarrow> s | ColLabel s \<Rightarrow> s)"

definition remote_call :: "remote_op \<Rightarrow> (remote \<Rightarrow> (error + 'a) \<times> remote) \<Rightarrow> 'a io" where
  "remote_call call body w =
     (let w1 = w\<lparr>clock := clock w + latency (remote w)\<rparr>
      in case map_of (faults (remote w)) call of
           Some msg \<Rightarrow> (Inl (Error msg), w1)
         | None \<Rightarrow> (case body (remote w) of (r, rm) \<Rightarrow> (r, w1\<lparr>remote := rm\<rparr>)))"

text \<open>\<^verbatim>\<open>getBoardGroups\<close> answers from the client's group cache for five minutes.\<close>

definition getBoardGroups :: "string list io" where
  "getBoardGroups w =
     (case (case groupCache w of
              Some (g, t) \<Rightarrow> if clock w - t < DEFAULT_CACHE_TTL_MS then Some g else None
            | None \<Rightarrow> None) of
        Some g \<Rightarrow> (Inr g, w)
      | None \<Rightarrow>
          (case remote_call GetBoardGroups (\<lambda>r. (Inr (board_groups r), r)) (w\<lparr>groupCache := None\<rparr>) of
             (Inl e, w1) \<Rightarrow> (Inl e, w1)
           | (Inr g, w1) \<Rightarrow> (Inr g, w1\<lparr>groupCache := Some (g, clock w1)\<rparr>)))"

text \<open>
  \<^verbatim>\<open>getItems\<close> asks for one page of at most 100 items, of the board or of one group
  when a truthy group id is given; the query does not select \<^verbatim>\<open>updated_at\<close>.
\<close>

definition getItems :: "string option \<Rightarrow> monday_item list io" where
  "getItems groupId =
     remote_call GetItems
       (\<lambda>r. (Inr (map (\<lambda>i. i\<lparr>updated_at := None\<rparr>)
                   (take 100
                      (case groupId of
                         None \<Rightarrow> board_items r
                       | Some g \<Rightarrow>
                           if truthy g then filter (\<lambda>i. item_group i = g) (board_items r)
                           else board_items r))),
              r))"

definition getItem :: "string \<Rightarrow> monday_item io" where
  "getItem itemId =
     remote_call (GetItem itemId)
       (\<lambda>r. case find (\<lambda>i. item_id i = itemId) (board_items r) of
               Some i \<Rightarrow> (Inr (i\<lparr>updated_at := None\<rparr>), r)
             | None \<Rightarrow> (Inl (Error (''Item not found: '' @ itemId)), r))"

text \<open>
  The board gives a created item the next free id. The mutation declares
  \<^verbatim>\<open>$itemName: String!\<close>, so a missing name is refused.
\<close>

definition new_item_id :: "nat \<Rightarrow> string" where
  "new_item_id n = ''item-'' @ string_of_nat n"

definition set_columns :: "(string \<times> colval) list \<Rightarrow> column list \<Rightarrow> column list" where
  "set_columns columnValues cols =
     fold (\<lambda>(k, v) cs.
             if list_ex (\<lambda>c. col_id c = k) cs
             then map (\<lambda>c. if col_id c = k then c\<lparr>col_text := colval_text v\<rparr> else c) cs
             else cs @ [\<lparr>col_id = k, col_text = colval_text v\<rparr>])
          columnValues cols"

definition createItem :: "string \<Rightarrow> string option \<Rightarrow> (string \<times> colval) list \<Rightarrow> monday_item io" where
  "createItem groupId itemName columnValues =
     remote_call (CreateItem (case itemName of Some n \<Rightarrow> n | None \<Rightarrow> ''undefined''))
       (\<lambda>r. case itemName of
               None \<Rightarrow> (Inl (Error ''Monday.com API errors: item name is required''), r)
             | Some n \<Rightarrow>
                 (let i = \<lparr>item_id = new_item_id (next_item r), item_name = n, item_group = groupId,
                           column_values = set_columns columnValues [], updated_at = None\<rparr>
                  in (Inr i, r\<lparr>board_items := board_items r @ [i], next_item := Suc (next_item r)\<rparr>)))"

definition updateItemName :: "string \<Rightarrow> string option \<Rightarrow> monday_item io" where
  "updateItemName itemId newName =
     remote_call (UpdateItemName itemId)
       (\<lambda>r. case (find (\<lambda>i. item_id i = itemId) (board_items r), newName) of
               (Some i, Some n) \<Rightarrow>
                 (Inr (i\<lparr>item_name := n, updated_at := None\<rparr>),
                  r\<lparr>board_items :=
                      map (\<lambda>j. if item_id j = itemId then j\<lparr>item_name := n\<rparr> else j) (board_items r)\<rparr>)
             | _ \<Rightarrow> (Inl (Error (''Failed to update name for item '' @ itemId)), r))"

definition updateItemColumnValues :: "string \<Rightarrow> (string \<times> colval) list \<Rightarrow> monday_item io" where
  "updateItemColumnValues itemId columnValues =
     remote_call (UpdateItemColumnValues itemId)
       (\<lambda>r. case find (\<lambda>i. item_id i = itemId) (board_items r) of
               Some i \<Rightarrow>
                 (Inr (i\<lparr>column_values := set_columns columnValues (column_values i),
                         updated_at := None\<rparr>),
                  r\<lparr>board_items :=
                      map (\<lambda>j. if item_id j = itemId
                                then j\<lparr>column_values := set_columns columnValues (column_values j)\<rparr>
                                else j)
                          (board_items r)\<rparr>)
             | None \<Rightarrow> (Inl (Error ''Failed to update item column values: no data returned''), r))"

text \<open>\<^verbatim>\<open>deleteItem\<close> catches every error and answers whether the board returned the id.\<close>

definition deleteItem :: "string \<Rightarrow> bool io" where
  "deleteItem itemId =
     io_catch
       (remote_call (DeleteItem itemId)
          (\<lambda>r. if list_ex (\<lambda>i. item_id i = itemId) (board_items r)
                then (Inr True, r\<lparr>board_items := filter (\<lambda>i. item_id i \<noteq> itemId) (board_items r)\<rparr>)
                else (Inr False, r)))
       (\<lambda>e. io_return False)"

text \<open>The \<^verbatim>\<open>delete_update\<close> mutation that \<^verbatim>\<open>updateMondayItem\<close> sends through \<^verbatim>\<open>executeQuery\<close>.\<close>

definition delete_update :: "string \<Rightarrow> unit io" where
  "delete_update updateId =
     remote_call (DeleteUpdate updateId)
       (\<lambda>r. if updateId \<in> set (item_updates r)
             then (Inr (), r\<lparr>item_updates := removeAll updateId (item_updates r)\<rparr>)
             else (Inl (Error ''Monday.com API errors: update not found''), r))"

section \<open>Task file module\<close>

text \<open>
  \<^verbatim>\<open>taskMasterIO.readTasks\<close> answers from the module's cache while the cached array is
  younger than \<^verbatim>\<open>CACHE_TTL * 1000\<close> ms with \<^verbatim>\<open>CACHE_TTL = 5000\<close>. Otherwise it reads the
  file: a missing file gives the empty array, every other failure is thrown with the
  prefix \<^verbatim>\<open>Error reading tasks file:\<close>, and a task array, bare or wrapped, is cached and
  returned. The array it returns is the cached one.
\<close>

definition CACHE_TTL_MS :: nat where
  "CACHE_TTL_MS = 5000 * 1000"

definition readTasks_file :: "task option list io" where
  "readTasks_file w =
     (let w1 = fs_call w
      in case tasks_json w of
           TasksAbsent \<Rightarrow> (Inr [], w1)
         | TasksUnreadable msg \<Rightarrow> (Inl (Error (''Error reading tasks file: '' @ msg)), w1)
         | TasksUnparseable msg \<Rightarrow>
             (Inl (Error (''Error reading tasks file: Error parsing tasks JSON: '' @ msg)), w1)
         | TasksNotArray wrapped \<Rightarrow>
             (Inl (Error ''Error reading tasks file: Tasks data is not an array''), w1)
         | TasksFile wrapped ts \<Rightarrow> (Inr ts, w1\<lparr>tasksCache := Some (ts, clock w1)\<rparr>))"

definition readTasks :: "task option list io" where
  "readTasks w =
     (case tasksCache w of
        Some (ts, stamp) \<Rightarrow>
          if clock w - stamp < CACHE_TTL_MS then (Inr ts, w)
          else readTasks_file (w\<lparr>tasksCache := None\<rparr>)
      | None \<Rightarrow> readTasks_file w)"

text \<open>
  \<^verbatim>\<open>writeTasks({ tasks })\<close> keeps the wrapper of the file it replaces, writes through a
  temporary file and caches the array. It awaits four calls to the file system; their
  failures are not modelled.
\<close>

definition writeTasks :: "task list \<Rightarrow> unit io" where
  "writeTasks ts w =
     (let w1 = fs_call (fs_call (fs_call (fs_call w)));
          wrapped = (case tasks_json w of
                       TasksFile wrapped old \<Rightarrow> wrapped
                     | TasksNotArray wrapped \<Rightarrow> wrapped
                     | _ \<Rightarrow> False)
      in (Inr (),
          w1\<lparr>tasks_json := TasksFile wrapped (map Some ts),
             tasksCache := Some (map Some ts, clock w1)\<rparr>))"

text \<open>
  The push loop sets \<^verbatim>\<open>monday_item_id\<close> of a task object to \<^verbatim>\<open>null\<close>; the object is an
  element of the cached array, so the next \<^verbatim>\<open>readTasks\<close> within the life of the cache
  returns the changed task.
\<close>

definition forget_item_of_cached_task :: "nat \<Rightarrow> world \<Rightarrow> world" where
  "forget_item_of_cached_task index w =
     w\<lparr>tasksCache :=
         map_option
           (\<lambda>(ts, stamp).
              (if index < length ts
               then ts[index := map_option (\<lambda>t. t\<lparr>monday_item_id := None\<rparr>) (ts ! index)]
               else ts,
               stamp))
           (tasksCache w)\<rparr>"

section \<open>Push reconciler\<close>

text \<open>
  What \<^verbatim>\<open>createPushSync\<close> keeps of its configuration: the instance's \<^verbatim>\<open>dryRun\<close> option,
  \<^verbatim>\<open>options.mondayBoardId\<close> and \<^verbatim>\<open>options.mondayGroupIds\<close> as \<^verbatim>\<open>getValidGroupIds\<close> reads
  them, the column, status and priority mappings, and the scores loaded from the
  complexity report. The manager of a push instance is created with the default lock
  time-out.
\<close>

record column_mapping =
  cm_taskId :: "string option"
  cm_status :: "string option"
  cm_priority :: "string option"
  cm_dependencies :: "string option"
  cm_complexity :: "string option"
  cm_description :: "string option"
  cm_details :: "string option"
  cm_testStrategy :: "string option"

record push_config =
  pc_dryRun :: bool
  pc_mondayBoardId :: "string option"
  pc_mondayGroupIds :: "string list option"
  pc_columnMapping :: column_mapping
  pc_status_mappings :: "(string \<times> string) list"
  pc_priority_mappings :: "(string \<times> string) list"
  pc_complexityMap :: "(string \<times> nat) list"

record push_options =
  po_dryRun :: "bool option"
  po_deleteOrphaned :: "bool option"

definition getComplexityLabel :: "nat \<Rightarrow> string" where
  "getComplexityLabel score =
     (case map_of
             [(''1'', ''16''), (''2'', ''110''), (''3'', ''156''), (''4'', ''158''), (''5'', ''6''),
              (''6'', ''14''), (''7'', ''109''), (''8'', ''11''), (''9'', ''152'')]
             (if score = 10 then ''9'' else string_of_nat score) of
        Some l \<Rightarrow> l
      | None \<Rightarrow> ''16'')"

text \<open>\<^verbatim>\<open>String(task.id)\<close>.\<close>

definition id_text :: "task \<Rightarrow> string" where
  "id_text t = to_string_opt (task_id t)"

text \<open>\<^verbatim>\<open>task.id\<close> where the code has made sure that it is truthy.\<close>

definition the_id :: "task \<Rightarrow> id_value" where
  "the_id t = (case task_id t of Some v \<Rightarrow> v | None \<Rightarrow> Str [])"

text \<open>\<^verbatim>\<open>mappings[x] || x\<close>.\<close>

definition mapped_or_self :: "(string \<times> string) list \<Rightarrow> string \<Rightarrow> string" where
  "mapped_or_self m x = (case map_of m x of Some y \<Rightarrow> if truthy y then y else x | None \<Rightarrow> x)"

text \<open>One \<^verbatim>\<open>columnValues[mappings.f] = v\<close> under its guard: the column is configured and the value is there.\<close>

definition set_col ::
  "string option \<Rightarrow> colval option \<Rightarrow> (string \<times> colval) list \<Rightarrow> (string \<times> colval) list" where
  "set_col col v cvs =
     (case (col, v) of
        (Some c, Some x) \<Rightarrow> if truthy c then AList.update c x cvs else cvs
      | _ \<Rightarrow> cvs)"

definition text_col :: "string option \<Rightarrow> colval option" where
  "text_col x = (if truthy_opt x then map_option ColText x else None)"

definition complexityValue :: "push_config \<Rightarrow> task \<Rightarrow> string option" where
  "complexityValue cfg t =
     (if truthy_opt (complexity t) then complexity t
      else if truthy_id_opt (task_id t) then
        map_option getComplexityLabel (map_of (pc_complexityMap cfg) (id_text t))
      else None)"

definition mapTaskToColumnValues :: "push_config \<Rightarrow> task \<Rightarrow> (string \<times> colval) list" where
  "mapTaskToColumnValues cfg t =
     (let m = pc_columnMapping cfg
      in set_col (cm_testStrategy m) (text_col (testStrategy t))
        (set_col (cm_details m) (text_col (details t))
        (set_col (cm_description m) (text_col (description t))
        (set_col (cm_complexity m) (text_col (complexityValue cfg t))
        (set_col (cm_dependencies m)
           (case dependencies t of
              Some ds \<Rightarrow> if ds \<noteq> [] then Some (ColText (join '', '' (map to_string ds))) else None
            | None \<Rightarrow> None)
        (set_col (cm_priority m)
           (if truthy_opt (priority t)
            then map_option (\<lambda>p. ColLabel (mapped_or_self (pc_priority_mappings cfg) p)) (priority t)
            else None)
        (set_col (cm_status m)
           (if truthy_opt (status t)
            then map_option (\<lambda>s. ColLabel (mapped_or_self (pc_status_mappings cfg) s)) (status t)
            else None)
        (set_col (cm_taskId m)
           (if truthy_id_opt (task_id t) then Some (ColText (id_text t)) else None) []))))))))"

text \<open>What \<^verbatim>\<open>createMondayItem\<close> and \<^verbatim>\<open>updateMondayItem\<close> return: an id and a name.\<close>

record item_ref =
  ref_id :: string
  ref_name :: "string option"

text \<open>
  \<^verbatim>\<open>createMondayItem\<close> and \<^verbatim>\<open>updateMondayItem\<close> test the \<^verbatim>\<open>dryRun\<close> option of the
  instance.
\<close>

definition createMondayItem :: "push_config \<Rightarrow> task \<Rightarrow> string \<Rightarrow> item_ref io" where
  "createMondayItem cfg t groupId w =
     (if pc_dryRun cfg then
        (Inr \<lparr>ref_id = ''dry-run-id-'' @ string_of_nat (clock w), ref_name = title t\<rparr>, w)
      else
        io_bind (createItem groupId (title t) (mapTaskToColumnValues cfg t))
          (\<lambda>item.
             io_bind (updateSyncedTimestamp DEFAULT_LOCK_TIMEOUT_MS (item_id item) (the_id t) None)
               (\<lambda>u. io_return \<lparr>ref_id = item_id item, ref_name = Some (item_name item)\<rparr>))
          w)"

definition cleanupPreviousUpdate :: "task \<Rightarrow> string \<Rightarrow> unit io" where
  "cleanupPreviousUpdate t mondayItemId =
     io_bind (getUpdateIdForTask DEFAULT_LOCK_TIMEOUT_MS (the_id t) mondayItemId)
       (\<lambda>previousUpdateId.
          case previousUpdateId of
            None \<Rightarrow> io_return ()
          | Some u \<Rightarrow>
              io_catch
                (io_bind (delete_update u)
                   (\<lambda>x. io_bind (removeUpdateIdForTask DEFAULT_LOCK_TIMEOUT_MS (the_id t) mondayItemId)
                          (\<lambda>y. io_return ())))
                (\<lambda>deleteError. io_return ()))"

definition updateMondayItem :: "push_config \<Rightarrow> task \<Rightarrow> string \<Rightarrow> item_ref io" where
  "updateMondayItem cfg t mondayItemId =
     (if pc_dryRun cfg then io_return \<lparr>ref_id = mondayItemId, ref_name = title t\<rparr>
      else
        io_bind (getItem mondayItemId)
          (\<lambda>currentItem.
             io_bind (if Some (item_name currentItem) \<noteq> title t
                      then io_bind (updateItemName mondayItemId (title t)) (\<lambda>x. io_return ())
                      else io_return ())
               (\<lambda>x. io_bind (updateItemColumnValues mondayItemId (mapTaskToColumnValues cfg t))
                  (\<lambda>updatedItem.
                     io_bind (updateSyncedTimestamp DEFAULT_LOCK_TIMEOUT_MS mondayItemId (the_id t) None)
                       (\<lambda>y. io_bind (cleanupPreviousUpdate t mondayItemId)
                          (\<lambda>z. io_return \<lparr>ref_id = item_id updatedItem,
                                           ref_name = Some (item_name updatedItem)\<rparr>))))))"

datatype action = Recreated | Created | Updated | Failed

record sync_result =
  action :: action
  sr_mondayItemId :: "string option"
  sr_oldMondayItemId :: "string option"
  sr_taskId :: id_value
  sr_error :: "string option"

definition error_result :: "task \<Rightarrow> error \<Rightarrow> sync_result" where
  "error_result t e =
     \<lparr>action = Failed, sr_mondayItemId = None, sr_oldMondayItemId = None, sr_taskId = the_id t,
      sr_error = Some (message e)\<rparr>"

text \<open>
  \<^verbatim>\<open>syncTask\<close>: a task with a mapping is updated through the first mapped item, any
  other task is created in the first valid group (the body of the \<^verbatim>\<open>try\<close>). Everything
  thrown there is turned into an error result; only the check of the id throws.
\<close>

definition syncTask_body :: "push_config \<Rightarrow> task \<Rightarrow> string list \<Rightarrow> sync_result io" where
  "syncTask_body cfg t validGroupIds =
     io_bind (getMondayItemIdsForTask DEFAULT_LOCK_TIMEOUT_MS (the_id t))
       (\<lambda>mondayItemIds.
          case mondayItemIds of
            mondayItemId # otherIds \<Rightarrow>
              io_bind (updateMondayItem cfg t mondayItemId)
                (\<lambda>updated.
                   io_return \<lparr>action = Updated, sr_mondayItemId = Some (ref_id updated),
                              sr_oldMondayItemId = None, sr_taskId = the_id t, sr_error = None\<rparr>)
          | [] \<Rightarrow>
              (case validGroupIds of
                 [] \<Rightarrow> io_throw (Error ''No valid group IDs provided'')
               | groupId # others \<Rightarrow>
                   io_bind (createMondayItem cfg t groupId)
                     (\<lambda>newItem.
                        io_return \<lparr>action = Created, sr_mondayItemId = Some (ref_id newItem),
                                   sr_oldMondayItemId = None, sr_taskId = the_id t,
                                   sr_error = None\<rparr>)))"

definition syncTask :: "push_config \<Rightarrow> task \<Rightarrow> string list \<Rightarrow> sync_result io" where
  "syncTask cfg t validGroupIds =
     (if \<not> truthy_id_opt (task_id t) then io_throw (Error ''Task is invalid (missing ID)'')
      else io_catch (syncTask_body cfg t validGroupIds) (\<lambda>e. io_return (error_result t e)))"

text \<open>
  \<^verbatim>\<open>getValidGroupIds\<close> reads \<^verbatim>\<open>options.mondayGroupIds\<close> after the groups have been
  fetched; when the option is absent, reading its \<^verbatim>\<open>length\<close> throws a \<^verbatim>\<open>TypeError\<close>.
\<close>

definition getValidGroupIds :: "push_config \<Rightarrow> string list io" where
  "getValidGroupIds cfg =
     io_bind getBoardGroups
       (\<lambda>groups.
          case pc_mondayGroupIds cfg of
            None \<Rightarrow> io_throw (Error ''Cannot read properties of undefined (reading 'length')'')
          | Some ids \<Rightarrow>
              if ids = [''all''] then io_return groups
              else if filter (\<lambda>g. g \<in> set groups) ids = [] then
                io_throw
                  (Error (''No valid groups found in board ''
                          @ (case pc_mondayBoardId cfg of Some b \<Rightarrow> b | None \<Rightarrow> ''undefined'')
                          @ '' matching the configured group IDs: '' @ join '', '' ids))
              else io_return (filter (\<lambda>g. g \<in> set groups) ids))"

text \<open>The entries of a result carry \<^verbatim>\<open>task.id\<close> as it is, a number or a string.\<close>

record push_entry =
  pe_taskId :: id_value
  pe_mondayItemId :: "string option"

record recreated_entry =
  re_taskId :: id_value
  re_oldMondayItemId :: "string option"
  re_newMondayItemId :: "string option"

record orphan_entry =
  oe_mondayItemId :: string
  oe_taskId :: id_value

record error_entry =
  ee_mondayItemId :: "string option"
  ee_taskId :: id_value
  ee_error :: string

record push_results =
  created :: "push_entry list"
  updated :: "push_entry list"
  recreated :: "recreated_entry list"
  deleted :: "orphan_entry list"
  errors :: "error_entry list"
  dryRun :: bool

text \<open>
  The ids of the records a result accounts for: the entries of the three success lists
  and the error entries of records (the error entries of the orphan scan carry a Monday
  item id).
\<close>

definition record_ids :: "push_results \<Rightarrow> id_value list" where
  "record_ids r =
     map pe_taskId (created r) @ map pe_taskId (updated r) @ map re_taskId (recreated r) @
     map ee_taskId (filter (\<lambda>e. ee_mondayItemId e = None) (errors r))"

text \<open>
  The existence check at the head of the loop body, for a task that carries a
  \<^verbatim>\<open>monday_item_id\<close>. When the board has no such item the source sets
  \<^verbatim>\<open>task.monday_item_id = null\<close> and then passes \<^verbatim>\<open>task.monday_item_id\<close> to
  \<^verbatim>\<open>removeMondayItem\<close>. Whatever the block throws is caught and logged as a warning; the
  function returns that exception, if any, and the task as the block left it. The task
  is element \<open>index\<close> of the array that \<^verbatim>\<open>readTasks\<close> returned.
\<close>

definition checkItemExists :: "nat \<Rightarrow> task \<Rightarrow> world \<Rightarrow> (error option \<times> task) \<times> world" where
  "checkItemExists index t w =
     (if truthy_opt (monday_item_id t) then
        (case getItems None w of
           (Inl e, w1) \<Rightarrow> ((Some e, t), w1)
         | (Inr boardItems, w1) \<Rightarrow>
             if list_ex (\<lambda>item. Some (item_id item) = monday_item_id t) boardItems
             then ((None, t), w1)
             else
               (case removeMondayItem DEFAULT_LOCK_TIMEOUT_MS
                       (monday_item_id (t\<lparr>monday_item_id := None\<rparr>))
                       (forget_item_of_cached_task index w1) of
                  (Inl e, w2) \<Rightarrow> ((Some e, t\<lparr>monday_item_id := None\<rparr>), w2)
                | (Inr removed, w2) \<Rightarrow> ((None, t\<lparr>monday_item_id := None\<rparr>), w2)))
      else ((None, t), w))"

text \<open>The \<^verbatim>\<open>if\<close> chain on \<^verbatim>\<open>result.action\<close>.\<close>

definition record_result :: "task \<Rightarrow> sync_result \<Rightarrow> push_results \<Rightarrow> push_results" where
  "record_result t result results =
     (case action result of
        Recreated \<Rightarrow>
          results\<lparr>recreated := recreated results @
                    [\<lparr>re_taskId = the_id t, re_oldMondayItemId = sr_oldMondayItemId result,
                      re_newMondayItemId = sr_mondayItemId result\<rparr>]\<rparr>
      | Created \<Rightarrow>
          results\<lparr>created := created results @
                    [\<lparr>pe_taskId = the_id t, pe_mondayItemId = sr_mondayItemId result\<rparr>]\<rparr>
      | Updated \<Rightarrow>
          results\<lparr>updated := updated results @
                    [\<lparr>pe_taskId = the_id t, pe_mondayItemId = sr_mondayItemId result\<rparr>]\<rparr>
      | Failed \<Rightarrow>
          results\<lparr>errors := errors results @
                    [\<lparr>ee_mondayItemId = None, ee_taskId = the_id t,
                      ee_error = (if truthy_opt (sr_error result)
                                  then (case sr_error result of Some m \<Rightarrow> m | None \<Rightarrow> ''Unknown error'')
                                  else ''Unknown error'')\<rparr>]\<rparr>)"

text \<open>The check after a creation, outside dry runs: the board is fetched again, errors are logged.\<close>

definition verifyCreated :: "bool \<Rightarrow> sync_result \<Rightarrow> world \<Rightarrow> world" where
  "verifyCreated dryRunOption result w =
     (if \<not> dryRunOption \<and> (action result = Created \<or> action result = Recreated)
      then snd (getItems None w) else w)"

text \<open>
  The body of the loop for a task that has an id, inside the outer \<^verbatim>\<open>try\<close>: the
  existence check, \<^verbatim>\<open>syncTask\<close> in its own \<^verbatim>\<open>try\<close>, the entry in the results, the
  verification.
\<close>

definition pushSync_task ::
  "push_config \<Rightarrow> bool \<Rightarrow> string list \<Rightarrow> nat \<Rightarrow> task \<Rightarrow> push_results \<Rightarrow> push_results io" where
  "pushSync_task cfg dryRunOption validGroupIds index t0 results w =
     (case checkItemExists index t0 w of
        ((warning, t), w1) \<Rightarrow>
          (case io_catch (syncTask cfg t validGroupIds) (\<lambda>e. io_return (error_result t e)) w1 of
             (Inl e, w2) \<Rightarrow> (Inl e, w2)
           | (Inr result, w2) \<Rightarrow>
               (Inr (record_result t result results), verifyCreated dryRunOption result w2)))"

text \<open>
  The loop over the array. An element \<^verbatim>\<open>null\<close> makes \<^verbatim>\<open>!task.id\<close> throw a \<^verbatim>\<open>TypeError\<close>;
  the \<^verbatim>\<open>catch\<close> of the loop body reads \<^verbatim>\<open>task.id\<close> for its log line and throws the same
  error again, which ends the loop and the run. For a task object the \<^verbatim>\<open>catch\<close> records
  what the body threw.
\<close>

definition null_id_error :: error where
  "null_id_error = Error ''Cannot read properties of null (reading 'id')''"

fun pushSync_loop ::
  "push_config \<Rightarrow> bool \<Rightarrow> string list \<Rightarrow> nat \<Rightarrow> task option list \<Rightarrow> push_results
   \<Rightarrow> push_results io" where
  "pushSync_loop cfg dryRunOption validGroupIds index [] results w = (Inr results, w)"
| "pushSync_loop cfg dryRunOption validGroupIds index (None # rest) results w =
     (Inl null_id_error, w)"
| "pushSync_loop cfg dryRunOption validGroupIds index (Some t # rest) results w =
     (if \<not> truthy_id_opt (task_id t)
      then pushSync_loop cfg dryRunOption validGroupIds (Suc index) rest results w
      else
        (case pushSync_task cfg dryRunOption validGroupIds index t results w of
           (Inl e, w1) \<Rightarrow>
             pushSync_loop cfg dryRunOption validGroupIds (Suc index) rest
               (results\<lparr>errors := errors results @
                          [\<lparr>ee_mondayItemId = None, ee_taskId = the_id t, ee_error = message e\<rparr>]\<rparr>)
               w1
         | (Inr results1, w1) \<Rightarrow>
             pushSync_loop cfg dryRunOption validGroupIds (Suc index) rest results1 w1))"

text \<open>
  The orphan scan enumerates the legacy dictionary \<open>items\<close>: an item whose task id is
  truthy and whose text is not the text of the id of a local task is orphaned. In a dry
  run the orphans become the \<^verbatim>\<open>deleted\<close> list; otherwise each is deleted on the board
  and, if the board confirms, removed from the sync state. The scan runs after the loop,
  so the array has no \<^verbatim>\<open>null\<close> element.
\<close>

definition orphanedItems :: "task list \<Rightarrow> sync_state \<Rightarrow> orphan_entry list" where
  "orphanedItems localTasks syncState =
     map (\<lambda>(m, ie). \<lparr>oe_mondayItemId = m, oe_taskId = ie_taskmasterTaskId ie\<rparr>)
       (filter (\<lambda>(m, ie). truthy_id (ie_taskmasterTaskId ie) \<and>
                           to_string (ie_taskmasterTaskId ie) \<notin> set (map id_text localTasks))
          (own_entries (items syncState)))"

definition orphan_error :: "orphan_entry \<Rightarrow> string \<Rightarrow> error_entry" where
  "orphan_error item msg =
     \<lparr>ee_mondayItemId = Some (oe_mondayItemId item), ee_taskId = oe_taskId item, ee_error = msg\<rparr>"

fun deleteOrphans :: "orphan_entry list \<Rightarrow> push_results \<Rightarrow> world \<Rightarrow> push_results \<times> world" where
  "deleteOrphans [] results w = (results, w)"
| "deleteOrphans (item # rest) results w =
     (case deleteItem (oe_mondayItemId item) w of
        (Inl e, w1) \<Rightarrow>
          deleteOrphans rest (results\<lparr>errors := errors results @ [orphan_error item (message e)]\<rparr>) w1
      | (Inr False, w1) \<Rightarrow>
          deleteOrphans rest
            (results\<lparr>errors := errors results @ [orphan_error item ''Failed to delete orphaned item'']\<rparr>) w1
      | (Inr True, w1) \<Rightarrow>
          (case removeMondayItem DEFAULT_LOCK_TIMEOUT_MS (Some (oe_mondayItemId item)) w1 of
             (Inl e, w2) \<Rightarrow>
               deleteOrphans rest (results\<lparr>errors := errors results @ [orphan_error item (message e)]\<rparr>) w2
           | (Inr removed, w2) \<Rightarrow>
               deleteOrphans rest (results\<lparr>deleted := deleted results @ [item]\<rparr>) w2))"

definition handleOrphanedItems :: "task list \<Rightarrow> bool \<Rightarrow> push_results \<Rightarrow> push_results io" where
  "handleOrphanedItems localTasks dryRunOption results =
     io_bind (readSyncState DEFAULT_LOCK_TIMEOUT_MS False)
       (\<lambda>(syncState, shared) w.
          if dryRunOption then (Inr (results\<lparr>deleted := orphanedItems localTasks syncState\<rparr>), w)
          else (case deleteOrphans (orphanedItems localTasks syncState) results w of
                  (results1, w1) \<Rightarrow> (Inr results1, w1)))"

text \<open>The task objects of an array without \<^verbatim>\<open>null\<close> elements.\<close>

definition task_objects :: "task option list \<Rightarrow> task list" where
  "task_objects entries = concat (map (\<lambda>e. case e of Some t \<Rightarrow> [t] | None \<Rightarrow> []) entries)"

text \<open>
  \<^verbatim>\<open>pushSync\<close>. The run-level \<^verbatim>\<open>dryRun\<close> option, which defaults to the option of the
  instance, is written into the result and steers the verification and the orphan scan.
\<close>

definition pushSync :: "push_config \<Rightarrow> push_options \<Rightarrow> push_results io" where
  "pushSync cfg opts =
     (let dryRunOption = (case po_dryRun opts of Some d \<Rightarrow> d | None \<Rightarrow> pc_dryRun cfg);
          deleteOrphaned = (case po_deleteOrphaned opts of Some d \<Rightarrow> d | None \<Rightarrow> True)
      in io_bind readTasks
           (\<lambda>tasks.
              io_bind (getValidGroupIds cfg)
                (\<lambda>validGroupIds.
                   io_bind
                     (pushSync_loop cfg dryRunOption validGroupIds 0 tasks
                        \<lparr>created = [], updated = [], recreated = [], deleted = [], errors = [],
                         dryRun = dryRunOption\<rparr>)
                     (\<lambda>results.
                        if deleteOrphaned
                        then handleOrphanedItems (task_objects tasks) dryRunOption results
                        else io_return results))))"

section \<open>Pull reconciler\<close>

record pull_config =
  pl_mondayGroupIds :: "string list"
  pl_columnMapping :: column_mapping
  pl_status_mappings :: "(string \<times> string) list"
  pl_priority_mappings :: "(string \<times> string) list"

text \<open>\<^verbatim>\<open>reverseMapping\<close>: from the lower-cased Monday label to the local value.\<close>

definition reverseMapping :: "(string \<times> string) list \<Rightarrow> (string \<times> string) list" where
  "reverseMapping mapping =
     fold (\<lambda>(k, v) reversed. if truthy v then AList.update (toLowerCase v) k reversed else reversed)
       mapping []"

text \<open>\<^verbatim>\<open>text.split(',').map(d => d.trim()).filter(Boolean)\<close>.\<close>

fun split_commas :: "string \<Rightarrow> string list" where
  "split_commas [] = [[]]"
| "split_commas (c # cs) =
     (if c = CHR '','' then [] # split_commas cs
      else (case split_commas cs of p # ps \<Rightarrow> (c # p) # ps | [] \<Rightarrow> [[c]]))"

definition trim :: "string \<Rightarrow> string" where
  "trim s = rev (dropWhile is_space (rev (dropWhile is_space s)))"

definition parse_dependencies :: "string \<Rightarrow> string list" where
  "parse_dependencies s = filter truthy (map trim (split_commas s))"

text \<open>
  \<^verbatim>\<open>mapItemToTask\<close>: the column loop, one column at a time, and the defaults after it.
  The id and the dependencies of the task it makes are strings, the texts of the columns.
\<close>

definition mapItemToTask_column :: "pull_config \<Rightarrow> column \<Rightarrow> task \<Rightarrow> task" where
  "mapItemToTask_column cfg c t =
     (if \<not> truthy (col_id c) \<or> \<not> truthy (col_text c) then t
      else
        (let m = pl_columnMapping cfg;
             k = Some (col_id c);
             t1 = (if k = cm_taskId m then t\<lparr>task_id := Some (Str (col_text c))\<rparr> else t);
             t2 = (if k = cm_status m
                   then t1\<lparr>status := Some (mapped_or_self (reverseMapping (pl_status_mappings cfg))
                                             (toLowerCase (col_text c)))\<rparr>
                   else t1);
             t3 = (if k = cm_priority m
                   then t2\<lparr>priority := Some (mapped_or_self (reverseMapping (pl_priority_mappings cfg))
                                               (toLowerCase (col_text c)))\<rparr>
                   else t2);
             t4 = (if k = cm_dependencies m
                   then t3\<lparr>dependencies := Some (map Str (parse_dependencies (col_text c)))\<rparr>
                   else t3);
             t5 = (if k = cm_description m then t4\<lparr>description := Some (col_text c)\<rparr> else t4);
             t6 = (if k = cm_details m then t5\<lparr>details := Some (col_text c)\<rparr> else t5)
         in if k = cm_testStrategy m then t6\<lparr>testStrategy := Some (col_text c)\<rparr> else t6))"

definition mapItemToTask :: "pull_config \<Rightarrow> monday_item \<Rightarrow> task" where
  "mapItemToTask cfg item =
     (let t = fold (mapItemToTask_column cfg) (column_values item)
                \<lparr>task_id = None, title = Some (item_name item), status = None, priority = None,
                 dependencies = None, description = None, details = None, testStrategy = None,
                 complexity = None, monday_item_id = Some (item_id item), subtasks = None\<rparr>
      in t\<lparr>dependencies := (case dependencies t of None \<Rightarrow> Some [] | Some ds \<Rightarrow> Some ds),
           subtasks := Some []\<rparr>)"

text \<open>
  \<^verbatim>\<open>tasksAreDifferent\<close>: title, status, description, details and priority are compared as
  they are, the dependencies as sets of numbers and strings, a missing list being the
  empty one.
\<close>

definition deps :: "task \<Rightarrow> id_value list" where
  "deps t = (case dependencies t of Some ds \<Rightarrow> ds | None \<Rightarrow> [])"

definition tasksAreDifferent :: "task \<Rightarrow> task \<Rightarrow> bool" where
  "tasksAreDifferent task1 task2 =
     (title task1 \<noteq> title task2 \<or> status task1 \<noteq> status task2 \<or>
      description task1 \<noteq> description task2 \<or> details task1 \<noteq> details task2 \<or>
      priority task1 \<noteq> priority task2 \<or>
      card (set (deps task1)) \<noteq> card (set (deps task2)) \<or>
      \<not> set (deps task1) \<subseteq> set (deps task2))"

record pull_options =
  dry :: bool
  forceOverwrite :: bool
  skipConflicts :: bool
  specificTaskId :: "id_value option"
  regenerateTaskFiles :: bool
  removeOrphaned :: bool
  recreateMissingTasks :: bool

definition default_pull_options :: pull_options where
  "default_pull_options =
     \<lparr>dry = False, forceOverwrite = False, skipConflicts = False, specificTaskId = None,
      regenerateTaskFiles = True, removeOrphaned = True, recreateMissingTasks = True\<rparr>"

record conflict =
  cf_mondayTask :: task
  cf_localTask :: task
  cf_reason :: string

record comparison =
  newItems :: "task list"
  updatedItems :: "task list"
  conflictItems :: "conflict list"
  unchangedItems :: "task list"
  recreatedItems :: "task list"

definition both_changed :: string where
  "both_changed = ''Changes detected both locally and in Monday.com''"

text \<open>
  The two look-up tables of \<^verbatim>\<open>compareItemsWithTasks\<close>: a later task with the same key
  replaces an earlier one. The first is keyed by \<^verbatim>\<open>String(task.id)\<close>.
\<close>

definition taskMap :: "task list \<Rightarrow> string \<Rightarrow> task option" where
  "taskMap tasks k = find (\<lambda>t. truthy_id_opt (task_id t) \<and> id_text t = k) (rev tasks)"

definition mondayItemMap :: "task list \<Rightarrow> string \<Rightarrow> task option" where
  "mondayItemMap tasks k =
     find (\<lambda>t. truthy_opt (monday_item_id t) \<and> monday_item_id t = Some k) (rev tasks)"

text \<open>
  The comparison of the last sync time with the item's \<^verbatim>\<open>updated_at\<close>: a missing
  \<^verbatim>\<open>updated_at\<close> parses to \<^verbatim>\<open>NaN\<close>, which is greater than nothing.
\<close>

definition changed_after :: "nat option \<Rightarrow> nat option \<Rightarrow> bool" where
  "changed_after lastSyncTimestamp updatedAt =
     (case (lastSyncTimestamp, updatedAt) of
        (Some l, Some u) \<Rightarrow> l \<noteq> 0 \<and> u > l
      | _ \<Rightarrow> False)"

text \<open>
  The body of the loop of \<^verbatim>\<open>compareItemsWithTasks\<close> for one item, inside its \<^verbatim>\<open>try\<close>.
  The id of the task made from the item is the text of its Task ID column; the check
  that the item is mapped to a task with another id compares with \<^verbatim>\<open>!==\<close>, so a local id
  that is a number is another id.
\<close>

definition compare_item ::
  "pull_config \<Rightarrow> task list \<Rightarrow> pull_options \<Rightarrow> monday_item \<Rightarrow> comparison \<Rightarrow> comparison io" where
  "compare_item cfg tasks options item results =
     (let mondayTask = mapItemToTask cfg item;
          k = id_text mondayTask;
          localTask = taskMap tasks k;
          mappedLocalTask = mondayItemMap tasks (item_id item)
      in if \<not> truthy_id_opt (task_id mondayTask) then io_return results
         else if truthy_id_opt (specificTaskId options) \<and>
                 k \<noteq> to_string_opt (specificTaskId options)
         then io_return results
         else if localTask = None \<and> recreateMissingTasks options then
           io_return (results\<lparr>recreatedItems := recreatedItems results @ [mondayTask],
                               newItems := newItems results @ [mondayTask]\<rparr>)
         else if (case mappedLocalTask of
                    Some mt \<Rightarrow> task_id mt \<noteq> task_id mondayTask \<and> recreateMissingTasks options
                  | None \<Rightarrow> False) then
           io_return
             (results\<lparr>conflictItems := conflictItems results @
                [\<lparr>cf_mondayTask = mondayTask,
                  cf_localTask = (case mappedLocalTask of Some mt \<Rightarrow> mt | None \<Rightarrow> mondayTask),
                  cf_reason = ''Monday.com item '' @ item_id item @ '' is mapped to local Task ''
                     @ (case mappedLocalTask of Some mt \<Rightarrow> id_text mt | None \<Rightarrow> [])
                     @ '', but item's Task ID column is '' @ k\<rparr>]\<rparr>)
         else
           (case localTask of
              None \<Rightarrow> io_return (results\<lparr>newItems := newItems results @ [mondayTask]\<rparr>)
            | Some lt \<Rightarrow>
                if tasksAreDifferent lt mondayTask then
                  (if forceOverwrite options \<or>
                      (\<not> skipConflicts options \<and> \<not> truthy_id_opt (specificTaskId options))
                   then io_return (results\<lparr>updatedItems := updatedItems results @ [mondayTask]\<rparr>)
                   else
                     io_bind (getLastSyncedTimestamp DEFAULT_LOCK_TIMEOUT_MS (item_id item))
                       (\<lambda>lastSyncTimestamp.
                          if changed_after lastSyncTimestamp (updated_at item) then
                            (if forceOverwrite options then
                               io_return (results\<lparr>updatedItems := updatedItems results @ [mondayTask]\<rparr>)
                             else if skipConflicts options then
                               io_return (results\<lparr>unchangedItems := unchangedItems results @ [mondayTask]\<rparr>)
                             else
                               io_return
                                 (results\<lparr>conflictItems := conflictItems results @
                                    [\<lparr>cf_mondayTask = mondayTask, cf_localTask = lt,
                                      cf_reason = both_changed\<rparr>]\<rparr>))
                          else io_return (results\<lparr>updatedItems := updatedItems results @ [mondayTask]\<rparr>)))
                else io_return (results\<lparr>unchangedItems := unchangedItems results @ [mondayTask]\<rparr>)))"

text \<open>The loop: an item whose comparison throws is logged and left out of every list.\<close>

fun compare_loop ::
  "pull_config \<Rightarrow> task list \<Rightarrow> pull_options \<Rightarrow> monday_item list \<Rightarrow> comparison \<Rightarrow> world
   \<Rightarrow> comparison \<times> world" where
  "compare_loop cfg tasks options [] results w = (results, w)"
| "compare_loop cfg tasks options (item # rest) results w =
     (case compare_item cfg tasks options item results w of
        (Inl e, w1) \<Rightarrow> compare_loop cfg tasks options rest results w1
      | (Inr results1, w1) \<Rightarrow> compare_loop cfg tasks options rest results1 w1)"

text \<open>
  \<^verbatim>\<open>compareItemsWithTasks\<close> builds its tables before the loop, outside every \<^verbatim>\<open>try\<close>:
  a \<^verbatim>\<open>null\<close> element of the task array makes \<^verbatim>\<open>task.id\<close> throw.
\<close>

definition compareItemsWithTasks ::
  "pull_config \<Rightarrow> monday_item list \<Rightarrow> task option list \<Rightarrow> pull_options \<Rightarrow> comparison io" where
  "compareItemsWithTasks cfg mondayItems localTasks options w =
     (if list_ex (\<lambda>e. e = None) localTasks then (Inl null_id_error, w)
      else
        (case compare_loop cfg (task_objects localTasks) options mondayItems
                \<lparr>newItems = [], updatedItems = [], conflictItems = [], unchangedItems = [],
                 recreatedItems = []\<rparr> w of
           (results, w1) \<Rightarrow> (Inr results, w1)))"

fun fetch_groups :: "string list \<Rightarrow> monday_item list \<Rightarrow> monday_item list io" where
  "fetch_groups [] acc = io_return acc"
| "fetch_groups (g # gs) acc =
     io_bind (getItems (Some g)) (\<lambda>groupItems. fetch_groups gs (acc @ groupItems))"

definition fetchMondayItems :: "pull_config \<Rightarrow> monday_item list io" where
  "fetchMondayItems cfg =
     io_bind getBoardGroups
       (\<lambda>groups.
          if groups = [] then io_throw (Error ''No groups found on the Monday.com board'')
          else
            (let validGroups = (if ''all'' \<in> set (pl_mondayGroupIds cfg) then groups
                                else filter (\<lambda>g. g \<in> set (pl_mondayGroupIds cfg)) groups)
             in if validGroups = [] then io_throw (Error ''No valid groups found'')
                else fetch_groups validGroups []))"

text \<open>
  \<^verbatim>\<open>findOrphanedLocalTasks\<close>: the local tasks whose item is not among the fetched ones
  (elements of the array that are not objects are skipped), then a minimal task for
  every entry of the legacy dictionary, as enumerated, whose item is neither fetched nor
  already found.
\<close>

definition minimal_task :: "id_value \<Rightarrow> string \<Rightarrow> task" where
  "minimal_task taskId mondayItemId =
     \<lparr>task_id = Some taskId, title = None, status = None, priority = None, dependencies = None,
      description = None, details = None, testStrategy = None, complexity = None,
      monday_item_id = Some mondayItemId, subtasks = None\<rparr>"

definition findOrphanedLocalTasks :: "task option list \<Rightarrow> monday_item list \<Rightarrow> task list io" where
  "findOrphanedLocalTasks localTasks mondayItems =
     io_bind (readSyncState DEFAULT_LOCK_TIMEOUT_MS False)
       (\<lambda>(syncState, shared).
          io_return
            (fold (\<lambda>(m, ie) orphaned.
                     if m \<notin> set (map item_id mondayItems) \<and>
                        \<not> list_ex (\<lambda>t. monday_item_id t = Some m) orphaned
                     then orphaned @ [minimal_task (ie_taskmasterTaskId ie) m] else orphaned)
               (own_entries (items syncState))
               (filter (\<lambda>t. truthy_opt (monday_item_id t) \<and>
                             (case monday_item_id t of
                                Some m \<Rightarrow> m \<notin> set (map item_id mondayItems)
                              | None \<Rightarrow> False))
                  (task_objects localTasks))))"

text \<open>\<^verbatim>\<open>regenerateTaskMasterFiles\<close> runs an external command, which may fail.\<close>

definition regenerateTaskMasterFiles :: "unit io" where
  "regenerateTaskMasterFiles w =
     (if generate_fails w then (Inl (Error ''Command failed: npx task-master generate''), w)
      else (Inr (), w\<lparr>generate_runs := Suc (generate_runs w)\<rparr>))"

text \<open>
  \<^verbatim>\<open>handleOrphanedTasks\<close> reads the tasks again and requires the answer to have a
  \<^verbatim>\<open>tasks\<close> property. \<^verbatim>\<open>readTasks\<close> answers with the array itself, which has none, so
  outside a dry run the function throws once there is an orphan; the removal loop behind
  the check is never reached and is not modelled.
\<close>

definition handleOrphanedTasks :: "task list \<Rightarrow> bool \<Rightarrow> bool \<Rightarrow> unit io" where
  "handleOrphanedTasks orphanedTasks dryRunFlag regenerate =
     (if orphanedTasks = [] then io_return ()
      else if dryRunFlag then io_return ()
      else io_bind readTasks
             (\<lambda>tasksContainer. io_throw (Error ''Invalid tasks structure: missing tasks array'')))"

record pull_results =
  pull_new :: "task list"
  pull_updated :: "task list"
  pull_conflicts :: "conflict list"
  pull_recreated :: "task list"
  pull_orphanedTaskIds :: "id_value option list"
  pull_dryRun :: bool

text \<open>
  The apply phase. \<^verbatim>\<open>pullSync\<close> starts the list to write from \<^verbatim>\<open>localTasks.tasks\<close>;
  \<^verbatim>\<open>localTasks\<close> is the array \<^verbatim>\<open>readTasks\<close> returned, which has no such property, so the
  list starts empty. New tasks are appended; an updated task replaces an entry of the
  list with the same id, keeping that entry's subtasks, or is appended.
\<close>

fun apply_new :: "task list \<Rightarrow> task list \<Rightarrow> task list io" where
  "apply_new [] tasksToWrite = io_return tasksToWrite"
| "apply_new (t # ts) tasksToWrite =
     io_bind (if truthy_opt (monday_item_id t)
              then updateSyncedTimestamp DEFAULT_LOCK_TIMEOUT_MS
                     (case monday_item_id t of Some m \<Rightarrow> m | None \<Rightarrow> []) (Str (id_text t)) None
              else io_return ())
       (\<lambda>u. apply_new ts (tasksToWrite @ [t]))"

definition put_updated :: "task \<Rightarrow> task list \<Rightarrow> task list" where
  "put_updated t tasksToWrite =
     (if list_ex (\<lambda>x. id_text x = id_text t) tasksToWrite
      then update_first (\<lambda>x. id_text x = id_text t)
             (\<lambda>x. t\<lparr>subtasks := (case subtasks x of Some s \<Rightarrow> Some s | None \<Rightarrow> Some [])\<rparr>)
             tasksToWrite
      else tasksToWrite @ [t])"

fun apply_updated :: "task list \<Rightarrow> task list \<Rightarrow> task list io" where
  "apply_updated [] tasksToWrite = io_return tasksToWrite"
| "apply_updated (t # ts) tasksToWrite =
     io_bind (if truthy_opt (monday_item_id t)
              then updateSyncedTimestamp DEFAULT_LOCK_TIMEOUT_MS
                     (case monday_item_id t of Some m \<Rightarrow> m | None \<Rightarrow> []) (Str (id_text t)) None
              else io_return ())
       (\<lambda>u. apply_updated ts (put_updated t tasksToWrite))"

definition apply_changes :: "pull_options \<Rightarrow> comparison \<Rightarrow> task list \<Rightarrow> unit io" where
  "apply_changes options comparisonResult orphanedTasks =
     io_bind (apply_new (newItems comparisonResult) [])
       (\<lambda>tasksToWrite1.
          io_bind (apply_updated (updatedItems comparisonResult) tasksToWrite1)
            (\<lambda>tasksToWrite.
               io_bind (if removeOrphaned options \<and> orphanedTasks \<noteq> []
                        then handleOrphanedTasks orphanedTasks (dry options) (regenerateTaskFiles options)
                        else io_return ())
                 (\<lambda>u. io_bind (writeTasks tasksToWrite)
                    (\<lambda>v. if regenerateTaskFiles options \<and>
                             (newItems comparisonResult \<noteq> [] \<or> updatedItems comparisonResult \<noteq> [])
                          then regenerateTaskMasterFiles else io_return ()))))"

definition pullSync :: "pull_config \<Rightarrow> pull_options \<Rightarrow> pull_results io" where
  "pullSync cfg options =
     io_bind (fetchMondayItems cfg)
       (\<lambda>mondayItems.
          io_bind readTasks
            (\<lambda>localTasks.
               io_bind (compareItemsWithTasks cfg mondayItems localTasks options)
                 (\<lambda>comparisonResult.
                    io_bind (findOrphanedLocalTasks localTasks mondayItems)
                      (\<lambda>orphanedTasks.
                         io_bind (if \<not> dry options
                                  then apply_changes options comparisonResult orphanedTasks
                                  else io_return ())
                           (\<lambda>u. io_return
                                  \<lparr>pull_new = newItems comparisonResult,
                                   pull_updated = updatedItems comparisonResult,
                                   pull_conflicts = conflictItems comparisonResult,
                                   pull_recreated = recreatedItems comparisonResult,
                                   pull_orphanedTaskIds = map task_id orphanedTasks,
                                   pull_dryRun = dry options\<rparr>)))))"

section \<open>Basic facts\<close>

lemma truthy_opt_simps [simp]: "truthy_opt None = False" "truthy_opt (Some s) = truthy s"
  by (simp_all add: truthy_opt_def)

lemma truthy_id_opt_simps [simp]:
  "truthy_id_opt None = False" "truthy_id_opt (Some v) = truthy_id v"
  by (simp_all add: truthy_id_opt_def)

lemma to_string_simps [simp]: "to_string (Str s) = s" "to_string (Num n) = string_of_nat n"
  by (simp_all add: to_string_def)

lemma truthy_id_simps [simp]: "truthy_id (Str s) = (s \<noteq> [])" "truthy_id (Num n) = (n \<noteq> 0)"
  by (simp_all add: truthy_id_def)

lemma to_string_opt_simps [simp]:
  "to_string_opt None = ''undefined''" "to_string_opt (Some v) = to_string v"
  by (simp_all add: to_string_opt_def)

lemma set_own_entries [simp]: "set (own_entries xs) = set xs"
  by (auto simp: own_entries_def)

lemma distinct_own_entries: "distinct (map fst xs) \<Longrightarrow> distinct (map fst (own_entries xs))"
proof -
  assume "distinct (map fst xs)"
  then have d: "distinct xs" and i: "inj_on fst (set xs)"
    by (simp_all add: distinct_map)
  from d have "distinct (own_entries xs)"
    by (auto simp: own_entries_def)
  with i show ?thesis by (simp add: distinct_map)
qed

lemma own_entries_plain:
  assumes "list_all (\<lambda>(k, v). array_index k = None) xs"
  shows "own_entries xs = xs"
proof -
  from assms have "filter (\<lambda>(k, v). array_index k \<noteq> None) xs = []"
    "filter (\<lambda>(k, v). array_index k = None) xs = xs"
    by (auto simp: list_all_iff filter_empty_conv filter_id_conv)
  then show ?thesis by (simp add: own_entries_def)
qed

lemma task_objects_simps [simp]:
  "task_objects [] = []" "task_objects (None # es) = task_objects es"
  "task_objects (Some t # es) = t # task_objects es"
  by (simp_all add: task_objects_def)

section \<open>Properties of the retry wrapper\<close>

lemma or_default_pos: "0 < d \<Longrightarrow> 0 < or_default v d"
  by (simp add: or_default_def split: option.splits)

lemma maxRetries_pos: "0 < maxRetries opts"
  by (simp add: maxRetries_def DEFAULT_MAX_RETRIES_def or_default_pos)

lemma executeQuery_loop_success:
  "\<lbrakk>attempt \<le> k; k < n; \<forall>j. attempt \<le> j \<and> j < k \<longrightarrow> isl (attempt_result (api j));
    attempt_result (api k) = Inr r\<rbrakk>
   \<Longrightarrow> executeQuery_loop n d api attempt le ws =
       \<lparr>outcome = Inr r, waits = ws @ map (\<lambda>j. d * 2 ^ j) [attempt..<k], calls = Suc k\<rparr>"
proof (induction "k - attempt" arbitrary: attempt le ws)
  case 0
  then have "attempt = k" by simp
  with 0 show ?case by (subst executeQuery_loop.simps) simp
next
  case (Suc m)
  then have lt: "attempt < k" and fail: "isl (attempt_result (api attempt))" by auto
  then obtain e where e: "attempt_result (api attempt) = Inl e"
    by (cases "attempt_result (api attempt)") auto
  have step: "executeQuery_loop n d api attempt le ws =
        executeQuery_loop n d api (Suc attempt) (Some e) (ws @ [d * 2 ^ attempt])"
    using lt Suc.prems(2) e by (subst executeQuery_loop.simps) simp
  have "executeQuery_loop n d api (Suc attempt) (Some e) (ws @ [d * 2 ^ attempt]) =
        \<lparr>outcome = Inr r,
         waits = (ws @ [d * 2 ^ attempt]) @ map (\<lambda>j. d * 2 ^ j) [Suc attempt..<k],
         calls = Suc k\<rparr>"
    using Suc by (intro Suc.hyps(1)) auto
  with step lt show ?case by (simp add: upt_conv_Cons)
qed

lemma executeQuery_loop_exhausted:
  "\<lbrakk>attempt < n; \<forall>j. attempt \<le> j \<and> j < n \<longrightarrow> isl (attempt_result (api j))\<rbrakk>
   \<Longrightarrow> executeQuery_loop n d api attempt le ws =
       \<lparr>outcome = attempt_result (api (n - 1)),
        waits = ws @ map (\<lambda>j. d * 2 ^ j) [attempt..<n - 1], calls = n\<rparr>"
proof (induction "n - attempt" arbitrary: attempt le ws)
  case 0
  then show ?case by simp
next
  case (Suc m)
  then have "isl (attempt_result (api attempt))" by auto
  then obtain e where e: "attempt_result (api attempt) = Inl e"
    by (cases "attempt_result (api attempt)") auto
  show ?case
  proof (cases "Suc attempt < n")
    case True
    have step: "executeQuery_loop n d api attempt le ws =
        executeQuery_loop n d api (Suc attempt) (Some e) (ws @ [d * 2 ^ attempt])"
      using True e by (subst executeQuery_loop.simps) simp
    have "executeQuery_loop n d api (Suc attempt) (Some e) (ws @ [d * 2 ^ attempt]) =
        \<lparr>outcome = attempt_result (api (n - 1)),
         waits = (ws @ [d * 2 ^ attempt]) @ map (\<lambda>j. d * 2 ^ j) [Suc attempt..<n - 1],
         calls = n\<rparr>"
      using Suc True by (intro Suc.hyps(1)) auto
    moreover have "attempt < n - 1" using True by simp
    ultimately show ?thesis using step by (simp add: upt_conv_Cons)
  next
    case False
    with Suc.prems have last: "attempt = n - 1" "Suc attempt = n" by auto
    have "executeQuery_loop n d api attempt le ws =
        executeQuery_loop n d api n (Some e) ws"
      using Suc.prems(1) e last by (subst executeQuery_loop.simps) simp
    also have "\<dots> = \<lparr>outcome = Inl e, waits = ws, calls = n\<rparr>"
      by (subst executeQuery_loop.simps) simp
    finally show ?thesis using last e by simp
  qed
qed

lemma executeQuery_loop_calls:
  "attempt \<le> n \<Longrightarrow> calls (executeQuery_loop n d api attempt le ws) \<le> n"
proof (induction n d api attempt le ws rule: executeQuery_loop.induct)
  case (1 n d api attempt le ws)
  show ?case
  proof (cases "attempt < n")
    case True
    show ?thesis
    proof (cases "attempt_result (api attempt)")
      case (Inl e)
      with True 1 show ?thesis by (subst executeQuery_loop.simps) simp
    next
      case (Inr r)
      with True show ?thesis by (subst executeQuery_loop.simps) simp
    qed
  next
    case False
    with 1 show ?thesis by (subst executeQuery_loop.simps) simp
  qed
qed

text \<open>
  Claim C9. With the default options \<^verbatim>\<open>executeQuery\<close> allows 3 attempts and starts from a
  delay of 1000 ms. It never makes more transport calls than \<open>maxRetries\<close>. If attempt
  \<open>k\<close> is the first that succeeds, its response is returned at once, after exactly \<open>k + 1\<close>
  calls and the waits \<open>retryDelayMs * 2 ^ j\<close> for \<open>j < k\<close> (1000 ms, then 2000 ms by
  default). If every attempt fails, the error of the last attempt is thrown, and no wait
  follows the last attempt.
\<close>

theorem executeQuery_retry_backoff:
  "(opt_maxRetries opts = None \<longrightarrow> maxRetries opts = 3) \<and>
   (opt_retryDelayMs opts = None \<longrightarrow> retryDelayMs opts = 1000) \<and>
   calls (executeQuery opts api q vs) \<le> maxRetries opts \<and>
   (\<forall>k r. k < maxRetries opts \<and> (\<forall>j<k. isl (attempt_result (api q vs j))) \<and>
          attempt_result (api q vs k) = Inr r \<longrightarrow>
          outcome (executeQuery opts api q vs) = Inr r \<and>
          waits (executeQuery opts api q vs) = map (\<lambda>j. retryDelayMs opts * 2 ^ j) [0..<k] \<and>
          calls (executeQuery opts api q vs) = Suc k) \<and>
   ((\<forall>j<maxRetries opts. isl (attempt_result (api q vs j))) \<longrightarrow>
          outcome (executeQuery opts api q vs) = attempt_result (api q vs (maxRetries opts - 1)) \<and>
          isl (outcome (executeQuery opts api q vs)) \<and>
          waits (executeQuery opts api q vs) =
            map (\<lambda>j. retryDelayMs opts * 2 ^ j) [0..<maxRetries opts - 1] \<and>
          calls (executeQuery opts api q vs) = maxRetries opts)"
proof (intro conjI allI impI)
  show "maxRetries opts = 3" if "opt_maxRetries opts = None"
    using that by (simp add: maxRetries_def or_default_def DEFAULT_MAX_RETRIES_def)
  show "retryDelayMs opts = 1000" if "opt_retryDelayMs opts = None"
    using that by (simp add: retryDelayMs_def or_default_def DEFAULT_RETRY_DELAY_MS_def)
  show "calls (executeQuery opts api q vs) \<le> maxRetries opts"
    by (simp add: executeQuery_def executeQuery_loop_calls)
next
  fix k r
  assume h: "k < maxRetries opts \<and> (\<forall>j<k. isl (attempt_result (api q vs j))) \<and>
             attempt_result (api q vs k) = Inr r"
  then have run: "executeQuery opts api q vs =
      \<lparr>outcome = Inr r, waits = [] @ map (\<lambda>j. retryDelayMs opts * 2 ^ j) [0..<k], calls = Suc k\<rparr>"
    unfolding executeQuery_def by (intro executeQuery_loop_success) auto
  show "outcome (executeQuery opts api q vs) = Inr r"
    and "waits (executeQuery opts api q vs) = map (\<lambda>j. retryDelayMs opts * 2 ^ j) [0..<k]"
    and "calls (executeQuery opts api q vs) = Suc k"
    by (simp_all add: run)
next
  assume h: "\<forall>j<maxRetries opts. isl (attempt_result (api q vs j))"
  then have run: "executeQuery opts api q vs =
      \<lparr>outcome = attempt_result (api q vs (maxRetries opts - 1)),
       waits = [] @ map (\<lambda>j. retryDelayMs opts * 2 ^ j) [0..<maxRetries opts - 1],
       calls = maxRetries opts\<rparr>"
    unfolding executeQuery_def by (intro executeQuery_loop_exhausted) (auto simp: maxRetries_pos)
  show "outcome (executeQuery opts api q vs) = attempt_result (api q vs (maxRetries opts - 1))"
    and "waits (executeQuery opts api q vs) =
           map (\<lambda>j. retryDelayMs opts * 2 ^ j) [0..<maxRetries opts - 1]"
    and "calls (executeQuery opts api q vs) = maxRetries opts"
    by (simp_all add: run)
  show "isl (outcome (executeQuery opts api q vs))"
    using h maxRetries_pos [of opts] by (simp add: run)
qed

definition default_client_options :: client_options where
  "default_client_options = \<lparr>opt_maxRetries = None, opt_retryDelayMs = None, opt_maxBatchSize = None\<rparr>"

definition ok_response :: response where
  "ok_response = \<lparr>resp_errors = [], resp_data = Some [(''DeleteItem_0'', ''{id: 1}'')]\<rparr>"

definition flaky_transport :: transport where
  "flaky_transport q vs k = (if k < 2 then Rejects (Error ''timeout'') else Resolves ok_response)"

definition dead_transport :: transport where
  "dead_transport q vs k = Rejects (Error (''down '' @ string_of_nat k))"

theorem executeQuery_retry_backoff_witness:
  "maxRetries default_client_options = 3 \<and>
   isl (attempt_result (flaky_transport ''q'' [] 0)) \<and>
   isl (attempt_result (flaky_transport ''q'' [] 1)) \<and>
   attempt_result (flaky_transport ''q'' [] 2) = Inr ok_response \<and>
   outcome (executeQuery default_client_options flaky_transport ''q'' []) = Inr ok_response \<and>
   waits (executeQuery default_client_options flaky_transport ''q'' []) = [1000, 2000] \<and>
   calls (executeQuery default_client_options flaky_transport ''q'' []) = 3 \<and>
   isl (attempt_result (dead_transport ''q'' [] 0)) \<and>
   isl (attempt_result (dead_transport ''q'' [] 1)) \<and>
   isl (attempt_result (dead_transport ''q'' [] 2)) \<and>
   outcome (executeQuery default_client_options dead_transport ''q'' []) = Inl (Error ''down 2'') \<and>
   waits (executeQuery default_client_options dead_transport ''q'' []) = [1000, 2000] \<and>
   calls (executeQuery default_client_options dead_transport ''q'' []) = 3"
proof -
  have n: "maxRetries default_client_options = 3" and d: "retryDelayMs default_client_options = 1000"
    by (simp_all add: maxRetries_def retryDelayMs_def default_client_options_def or_default_def
        DEFAULT_MAX_RETRIES_def DEFAULT_RETRY_DELAY_MS_def)
  have f: "\<forall>j<2. isl (attempt_result (flaky_transport ''q'' [] j))"
    by (simp add: attempt_result_def flaky_transport_def)
  have s: "attempt_result (flaky_transport ''q'' [] 2) = Inr ok_response"
    by (simp add: attempt_result_def flaky_transport_def ok_response_def)
  have a: "\<forall>j<3. isl (attempt_result (dead_transport ''q'' [] j))"
    by (simp add: attempt_result_def dead_transport_def)
  have l: "attempt_result (dead_transport ''q'' [] 2) = Inl (Error ''down 2'')"
    by (simp add: attempt_result_def dead_transport_def string_of_nat.simps digit_def)
  have up: "[0..<2] = [0, Suc 0]" by (simp add: upt_conv_Cons)
  note t1 = executeQuery_retry_backoff [of default_client_options flaky_transport "''q''" "[]",
      THEN conjunct2, THEN conjunct2, THEN conjunct2, THEN conjunct1, rule_format, of 2 ok_response]
  note t2 = executeQuery_retry_backoff [of default_client_options dead_transport "''q''" "[]",
      THEN conjunct2, THEN conjunct2, THEN conjunct2, THEN conjunct2, rule_format]
  have "2 < maxRetries default_client_options \<and>
        (\<forall>j<2. isl (attempt_result (flaky_transport ''q'' [] j))) \<and>
        attempt_result (flaky_transport ''q'' [] 2) = Inr ok_response"
    using f s n by simp
  from t1 [OF this] have
    "outcome (executeQuery default_client_options flaky_transport ''q'' []) = Inr ok_response \<and>
     waits (executeQuery default_client_options flaky_transport ''q'' []) =
       map (\<lambda>j. retryDelayMs default_client_options * 2 ^ j) [0..<2] \<and>
     calls (executeQuery default_client_options flaky_transport ''q'' []) = Suc 2" .
  moreover have "\<And>j. j < maxRetries default_client_options \<Longrightarrow>
        isl (attempt_result (dead_transport ''q'' [] j))"
    using a n by simp
  from t2 [OF this] n l have
    "outcome (executeQuery default_client_options dead_transport ''q'' []) = Inl (Error ''down 2'') \<and>
     waits (executeQuery default_client_options dead_transport ''q'' []) =
       map (\<lambda>j. retryDelayMs default_client_options * 2 ^ j) [0..<2] \<and>
     calls (executeQuery default_client_options dead_transport ''q'' []) = 3"
    by simp
  ultimately show ?thesis using n d f s a by (simp add: up attempt_result_def flaky_transport_def dead_transport_def)
qed

section \<open>Properties of the mutation batcher\<close>

lemma length_settle [simp]: "length (settle h p hs) = length hs"
  by (simp add: settle_def)


lemma settle_pending: "h < length hs \<Longrightarrow> hs ! h = Pending \<Longrightarrow> settle h p hs ! h = p"
  by (simp add: settle_def)

lemma length_reject_all [simp]: "length (reject_all err batch hs) = length hs"
  unfolding reject_all_def by (induction batch arbitrary: hs) simp_all











section \<open>Properties of the lock and of reading and writing the sync file\<close>

text \<open>
  On a sound disk whose calls take no measurable time (\<open>fs_faults w = []\<close>, \<open>fs_ms w = 0\<close>)
  a call to the file system changes nothing but what it is for.
\<close>

lemma fs_call_quick [simp]: "fs_ms w = 0 \<Longrightarrow> fs_call w = w"
  by (simp add: fs_call_def)

lemma fs_fault_none [simp]: "fs_faults w = [] \<Longrightarrow> fs_fault w call = None"
  by (simp add: fs_fault_def)

lemma fs_call_fields [simp]:
  "fs_ms (fs_call w) = fs_ms w" "fs_faults (fs_call w) = fs_faults w"
  "lock_file (fs_call w) = lock_file w" "activeLocks (fs_call w) = activeLocks w"
  "sync_file (fs_call w) = sync_file w" "syncStateCache (fs_call w) = syncStateCache w"
  "cacheTimestamp (fs_call w) = cacheTimestamp w" "uuid_ctr (fs_call w) = uuid_ctr w"
  "tasks_json (fs_call w) = tasks_json w" "tasksCache (fs_call w) = tasksCache w"
  "remote (fs_call w) = remote w" "generate_runs (fs_call w) = generate_runs w"
  "generate_fails (fs_call w) = generate_fails w" "groupCache (fs_call w) = groupCache w"
  "clock (fs_call w) = clock w + fs_ms w"
  by (simp_all add: fs_call_def)

lemma acquireLock_loop_free:
  "lock_free w \<Longrightarrow> fs_faults w = [] \<Longrightarrow> fs_ms w = 0 \<Longrightarrow> n \<noteq> 0 \<Longrightarrow>
   acquireLock_loop n timeoutMs lockId startTime w =
     (Inr (Some lockId),
      w\<lparr>lock_file := Some (lockId, clock w), activeLocks := Some (lockId, clock w)\<rparr>)"
  by (cases n) (simp_all add: lock_free_def)

lemma acquireLock_free:
  "lock_free w \<Longrightarrow> fs_faults w = [] \<Longrightarrow> fs_ms w = 0 \<Longrightarrow>
   acquireLock timeoutMs w =
     (Inr (Some (uuid_ctr w)),
      w\<lparr>uuid_ctr := Suc (uuid_ctr w), lock_file := Some (uuid_ctr w, clock w),
         activeLocks := Some (uuid_ctr w, clock w)\<rparr>)"
  by (simp add: acquireLock_def acquireLock_loop_free lock_free_def)

text \<open>
  An \<^verbatim>\<open>acquireLock\<close> that starts at \<open>start\<close> while the lock file, made at \<open>start\<close>, belongs
  to another lock id (of this process or of another one): the lock is never older than
  the time waited, so it is never removed as stale, and the attempt that sees the time-out
  exceeded throws.
\<close>

lemma acquireLock_loop_held:
  "\<lbrakk>lock_file w = Some (owner, start);
    \<not> (case activeLocks w of Some (i, t) \<Rightarrow> i = lockId | None \<Rightarrow> False);
    start \<le> clock w; n \<noteq> 0; timeoutMs < (clock w - start) + 100 * (n - 1);
    fs_faults w = []; fs_ms w = 0\<rbrakk>
   \<Longrightarrow> \<exists>c. clock w \<le> c \<and>
          acquireLock_loop n timeoutMs lockId start w = (Inl (lock_timeout timeoutMs), w\<lparr>clock := c\<rparr>)"
proof (induction n arbitrary: w)
  case 0
  then show ?case by simp
next
  case (Suc n)
  show ?case
  proof (cases "clock w - start > timeoutMs")
    case True
    with Suc.prems have
      "acquireLock_loop (Suc n) timeoutMs lockId start w = (Inl (lock_timeout timeoutMs), w\<lparr>clock := clock w\<rparr>)"
      by simp
    then show ?thesis by blast
  next
    case False
    let ?w = "w\<lparr>clock := clock w + 100\<rparr>"
    from False Suc.prems have n: "n \<noteq> 0" by (cases n) auto
    from False Suc.prems have step:
      "acquireLock_loop (Suc n) timeoutMs lockId start w = acquireLock_loop n timeoutMs lockId start ?w"
      by simp
    have "\<exists>c. clock ?w \<le> c \<and>
            acquireLock_loop n timeoutMs lockId start ?w = (Inl (lock_timeout timeoutMs), ?w\<lparr>clock := c\<rparr>)"
    proof (rule Suc.IH)
      show "timeoutMs < clock ?w - start + 100 * (n - 1)"
        using Suc.prems(3,5) n by (cases n) auto
    qed (use Suc.prems n in auto)
    then obtain c where "clock ?w \<le> c"
      "acquireLock_loop n timeoutMs lockId start ?w = (Inl (lock_timeout timeoutMs), ?w\<lparr>clock := c\<rparr>)"
      by blast
    with step have "clock w \<le> c \<and>
      acquireLock_loop (Suc n) timeoutMs lockId start w = (Inl (lock_timeout timeoutMs), w\<lparr>clock := c\<rparr>)"
      by simp
    then show ?thesis by blast
  qed
qed

lemma acquireLock_held:
  assumes "lock_file w = Some (owner, clock w)"
    "\<not> (case activeLocks w of Some (i, t) \<Rightarrow> i = uuid_ctr w | None \<Rightarrow> False)"
    "timeoutMs < 99900" "fs_faults w = []" "fs_ms w = 0"
  shows "\<exists>c. clock w \<le> c \<and>
           acquireLock timeoutMs w =
             (Inl (lock_timeout timeoutMs), w\<lparr>uuid_ctr := Suc (uuid_ctr w), clock := c\<rparr>)"
proof -
  let ?w = "w\<lparr>uuid_ctr := Suc (uuid_ctr w)\<rparr>"
  have "\<exists>c. clock ?w \<le> c \<and>
          acquireLock_loop 1000 timeoutMs (uuid_ctr w) (clock w) ?w =
            (Inl (lock_timeout timeoutMs), ?w\<lparr>clock := c\<rparr>)"
    by (rule acquireLock_loop_held [where owner = owner]) (use assms in auto)
  then show ?thesis by (auto simp: acquireLock_def)
qed

lemma released_own:
  "lock_file w = Some (l, m) \<Longrightarrow> activeLocks w = Some (l, x) \<Longrightarrow> fs_faults w = [] \<Longrightarrow>
   fs_ms w = 0 \<Longrightarrow> released (Some l) w = w\<lparr>activeLocks := None, lock_file := None\<rparr>"
  by (simp add: released_def releaseLock_def)

lemma writeSyncState_free:
  "lock_free w \<Longrightarrow> fs_faults w = [] \<Longrightarrow> fs_ms w = 0 \<Longrightarrow>
   writeSyncState timeoutMs s shared w =
     (Inr (s\<lparr>lastSync := Some (clock w)\<rparr>),
      w\<lparr>uuid_ctr := Suc (uuid_ctr w), sync_file := Valid (s\<lparr>lastSync := Some (clock w)\<rparr>),
         syncStateCache := Some (s\<lparr>lastSync := Some (clock w)\<rparr>),
         cacheTimestamp := Some (clock w)\<rparr>)"
  by (cases shared)
     (simp_all add: writeSyncState_def Let_def acquireLock_free lock_free_def released_def
        releaseLock_def)

lemma readSyncState_hit:
  "cache_hit w = Some s \<Longrightarrow> readSyncState timeoutMs False w = (Inr (s, True), w)"
  by (simp add: readSyncState_def)

lemma readSyncState_valid:
  "\<lbrakk>lock_free w; bypassCache \<or> cache_hit w = None; sync_file w = Valid s; fs_faults w = [];
    fs_ms w = 0\<rbrakk>
   \<Longrightarrow> readSyncState timeoutMs bypassCache w =
       (Inr (s, True),
        w\<lparr>uuid_ctr := Suc (uuid_ctr w), syncStateCache := Some s,
           cacheTimestamp := Some (clock w)\<rparr>)"
  by (auto simp: readSyncState_def acquireLock_free lock_free_def released_def releaseLock_def Let_def)

lemma readSyncState_corrupt:
  "\<lbrakk>lock_free w; bypassCache \<or> cache_hit w = None; sync_file w = Corrupt; fs_faults w = [];
    fs_ms w = 0\<rbrakk>
   \<Longrightarrow> readSyncState timeoutMs bypassCache w =
       (Inr (getEmptySyncState, False), w\<lparr>uuid_ctr := Suc (uuid_ctr w)\<rparr>)"
  by (auto simp: readSyncState_def acquireLock_free lock_free_def released_def releaseLock_def)

text \<open>
  With no file, the write inside \<^verbatim>\<open>readSyncState\<close> waits for the lock that
  \<^verbatim>\<open>readSyncState\<close> itself holds and times out: nothing is written, the lock is released,
  and only the clock and the id source have moved.
\<close>

lemma readSyncState_missing:
  assumes "lock_free w" "bypassCache \<or> cache_hit w = None" "sync_file w = Missing"
    "timeoutMs < 99900" "fs_faults w = []" "fs_ms w = 0"
  shows "\<exists>c. clock w \<le> c \<and>
           readSyncState timeoutMs bypassCache w =
             (Inr (getEmptySyncState, False), w\<lparr>uuid_ctr := Suc (Suc (uuid_ctr w)), clock := c\<rparr>)"
proof -
  let ?l = "uuid_ctr w"
  let ?w1 = "w\<lparr>uuid_ctr := Suc ?l, lock_file := Some (?l, clock w), activeLocks := Some (?l, clock w)\<rparr>"
  have a1: "acquireLock timeoutMs w = (Inr (Some ?l), ?w1)"
    using assms(1,5,6) by (rule acquireLock_free)
  have "\<exists>c. clock ?w1 \<le> c \<and>
          acquireLock timeoutMs ?w1 =
            (Inl (lock_timeout timeoutMs), ?w1\<lparr>uuid_ctr := Suc (uuid_ctr ?w1), clock := c\<rparr>)"
    by (rule acquireLock_held [where owner = ?l]) (use assms(4,5,6) in auto)
  then obtain c where c: "clock w \<le> c" and
    a2: "acquireLock timeoutMs ?w1 =
           (Inl (lock_timeout timeoutMs), ?w1\<lparr>uuid_ctr := Suc (Suc ?l), clock := c\<rparr>)"
    by auto
  have wr: "writeSyncState timeoutMs getEmptySyncState False ?w1 =
          (Inl (lock_timeout timeoutMs), ?w1\<lparr>uuid_ctr := Suc (Suc ?l), clock := c\<rparr>)"
    by (simp add: writeSyncState_def Let_def a2)
  have "readSyncState timeoutMs bypassCache w =
          (Inr (getEmptySyncState, False),
           released (Some ?l) (?w1\<lparr>uuid_ctr := Suc (Suc ?l), clock := c\<rparr>))"
    using assms(2,3) by (auto simp: readSyncState_def a1 wr)
  moreover have "released (Some ?l) (?w1\<lparr>uuid_ctr := Suc (Suc ?l), clock := c\<rparr>) =
       w\<lparr>uuid_ctr := Suc (Suc ?l), clock := c\<rparr>"
    using assms(1,5,6) by (simp add: released_def releaseLock_def lock_free_def)
  ultimately show ?thesis using c by auto
qed


text \<open>
  Whatever the disk does, taking and releasing the lock leave the sync file alone, a free
  lock whose file can be created is taken at the first attempt, and \<^verbatim>\<open>writeSyncState\<close>
  either throws and leaves the sync file as it was, or returns the stamped state, which
  is then the content of the file.
\<close>

lemma acquireLock_loop_sync_file:
  "sync_file (snd (acquireLock_loop n timeoutMs lockId startTime w)) = sync_file w"
  by (induction n arbitrary: w) (auto simp: Let_def split: option.splits)

lemma acquireLock_sync_file:
  "acquireLock timeoutMs w = (r, w1) \<Longrightarrow> sync_file w1 = sync_file w"
  using acquireLock_loop_sync_file
    [of 1000 timeoutMs "uuid_ctr w" "clock w" "w\<lparr>uuid_ctr := Suc (uuid_ctr w)\<rparr>"]
  by (simp add: acquireLock_def)

lemma released_sync_file [simp]: "sync_file (released lockId w) = sync_file w"
  by (auto simp: released_def releaseLock_def Let_def split: option.splits)

lemma acquireLock_loop_lock_free:
  "lock_free w \<Longrightarrow> fs_fault w LockCreate = None \<Longrightarrow> n \<noteq> 0 \<Longrightarrow>
   \<exists>w1. acquireLock_loop n timeoutMs lockId startTime w = (Inr (Some lockId), w1)"
  by (cases n) (simp_all add: lock_free_def Let_def)

lemma acquireLock_lock_free:
  "lock_free w \<Longrightarrow> fs_fault w LockCreate = None \<Longrightarrow>
   \<exists>w1. acquireLock timeoutMs w = (Inr (Some (uuid_ctr w)), w1)"
  unfolding acquireLock_def
  by (rule acquireLock_loop_lock_free) (simp_all add: lock_free_def fs_fault_def)

lemma acquireLock_loop_fault:
  "fs_fault w LockCreate = Some msg \<Longrightarrow> activeLocks w = None \<Longrightarrow> n \<noteq> 0 \<Longrightarrow>
   acquireLock_loop n timeoutMs lockId startTime w = (Inl (Error msg), fs_call w)"
  by (cases n) (simp_all add: Let_def)

lemma writeSyncState_cases:
  "(\<exists>e w2. writeSyncState timeoutMs s shared w = (Inl e, w2) \<and> sync_file w2 = sync_file w) \<or>
   (\<exists>w2. writeSyncState timeoutMs s shared w = (Inr (s\<lparr>lastSync := Some (clock w)\<rparr>), w2) \<and>
         sync_file w2 = Valid (s\<lparr>lastSync := Some (clock w)\<rparr>))"
proof -
  let ?w0 = "if shared then w\<lparr>syncStateCache := Some (s\<lparr>lastSync := Some (clock w)\<rparr>)\<rparr> else w"
  obtain r w1 where a: "acquireLock timeoutMs ?w0 = (r, w1)"
    by (cases "acquireLock timeoutMs ?w0")
  from acquireLock_sync_file [OF a] have f: "sync_file w1 = sync_file w" by simp
  show ?thesis
    using a f by (cases r) (auto simp: writeSyncState_def Let_def split: option.splits)
qed
section \<open>Reading a missing or corrupt sync file\<close>

definition quiet_remote :: remote where
  "quiet_remote =
     \<lparr>board_items = [], board_groups = [''g1''], item_updates = [], next_item = 1, faults = [],
      latency = 20\<rparr>"

text \<open>A fresh process on a sound disk: no sync file, no lock file, empty caches.\<close>

definition fresh_world :: world where
  "fresh_world =
     \<lparr>clock = 1700000000000, uuid_ctr = 0, fs_ms = 0, fs_faults = [], lock_file = None,
      activeLocks = None, sync_file = Missing, syncStateCache = None, cacheTimestamp = None,
      groupCache = None, tasks_json = TasksAbsent, tasksCache = None, generate_fails = False,
      generate_runs = 0, remote = quiet_remote\<rparr>"

text \<open>
  The same process while another process holds the lock file, made at this moment; in a
  directory in which the lock file cannot be created; and five seconds after it cached
  a state whose file was removed since.
\<close>

definition contended_world :: world where
  "contended_world = fresh_world\<lparr>lock_file := Some (41, 1700000000000)\<rparr>"

definition readonly_world :: world where
  "readonly_world =
     fresh_world\<lparr>fs_faults :=
       [(LockCreate, ''EROFS: read-only file system'')]\<rparr>"

text \<open>
  Claim C7 says that \<^verbatim>\<open>readSyncState\<close> does not throw for any sync file that is missing
  or unparseable. The function asks for the file's lock before its \<^verbatim>\<open>try\<close>, so whatever
  \<^verbatim>\<open>acquireLock\<close> throws leaves \<^verbatim>\<open>readSyncState\<close>: with no sync file and the default
  time-out, the read throws the time-out error while another process holds the lock, and
  it throws the error of the file system when the lock file cannot be created.
\<close>

theorem readSyncState_missing_file_throws_counterexample:
  "sync_file contended_world = Missing \<and>
   fst (readSyncState DEFAULT_LOCK_TIMEOUT_MS False contended_world) =
     Inl (lock_timeout DEFAULT_LOCK_TIMEOUT_MS) \<and>
   sync_file readonly_world = Missing \<and>
   fst (readSyncState DEFAULT_LOCK_TIMEOUT_MS False readonly_world) =
     Inl (Error ''EROFS: read-only file system'')"
proof -
  have "\<exists>c. clock contended_world \<le> c \<and>
          acquireLock DEFAULT_LOCK_TIMEOUT_MS contended_world =
            (Inl (lock_timeout DEFAULT_LOCK_TIMEOUT_MS),
             contended_world\<lparr>uuid_ctr := Suc (uuid_ctr contended_world), clock := c\<rparr>)"
    by (rule acquireLock_held [where owner = 41])
       (simp_all add: contended_world_def fresh_world_def DEFAULT_LOCK_TIMEOUT_MS_def)
  then have 1: "fst (readSyncState DEFAULT_LOCK_TIMEOUT_MS False contended_world) =
      Inl (lock_timeout DEFAULT_LOCK_TIMEOUT_MS)"
    by (auto simp: readSyncState_def cache_hit_def contended_world_def fresh_world_def)
  have "acquireLock DEFAULT_LOCK_TIMEOUT_MS readonly_world =
      (Inl (Error ''EROFS: read-only file system''),
       fs_call (readonly_world\<lparr>uuid_ctr := Suc (uuid_ctr readonly_world)\<rparr>))"
    unfolding acquireLock_def
    by (rule acquireLock_loop_fault) (simp_all add: readonly_world_def fresh_world_def fs_fault_def)
  then have 2: "fst (readSyncState DEFAULT_LOCK_TIMEOUT_MS False readonly_world) =
      Inl (Error ''EROFS: read-only file system'')"
    by (simp add: readSyncState_def cache_hit_def readonly_world_def fresh_world_def)
  from 1 2 show ?thesis
    by (simp add: contended_world_def readonly_world_def fresh_world_def)
qed

text \<open>
  Claim C7, amended. Let the sync file be missing or unparseable, let no unexpired cache
  answer the read, and let the read get the lock it asks for (\<open>acquireLock_lock_free\<close>: it
  does when nobody holds the lock and the lock file can be created). Then
  \<^verbatim>\<open>readSyncState\<close> does not throw and returns a state with version 1.0, no mappings and
  empty indexes. For unparseable content it is the empty state with \<^verbatim>\<open>lastSync\<close> null, and
  the file is left as it is. For a missing file it is either that empty state, the file
  still missing (the write that \<^verbatim>\<open>readSyncState\<close> attempts has thrown:
  \<open>readSyncState_missing\<close> shows that it does on a disk whose calls take no measurable
  time), or the empty state stamped with a \<^verbatim>\<open>lastSync\<close> time and written to the file.
\<close>

theorem readSyncState_missing_or_corrupt:
  assumes "sync_file w = Missing \<or> sync_file w = Corrupt"
    and "bypassCache \<or> cache_hit w = None"
    and "acquireLock timeoutMs w = (Inr lockId, w1)"
  shows "\<exists>s shared w'.
           readSyncState timeoutMs bypassCache w = (Inr (s, shared), w') \<and>
           s\<lparr>lastSync := None\<rparr> = getEmptySyncState \<and>
           (sync_file w = Corrupt \<longrightarrow> s = getEmptySyncState \<and> sync_file w' = Corrupt) \<and>
           (sync_file w = Missing \<longrightarrow>
              (s = getEmptySyncState \<and> sync_file w' = Missing) \<or>
              ((\<exists>t. lastSync s = Some t) \<and> sync_file w' = Valid s))"
proof -
  from acquireLock_sync_file [OF assms(3)] have f: "sync_file w1 = sync_file w" .
  from assms(2) have miss: "(if bypassCache then None else cache_hit w) = None"
    by auto
  have e: "getEmptySyncState\<lparr>lastSync := None\<rparr> = getEmptySyncState"
    by (simp add: getEmptySyncState_def)
  have concl: ?thesis
    if "readSyncState timeoutMs bypassCache w = (Inr (s, b), w')"
      and "s\<lparr>lastSync := None\<rparr> = getEmptySyncState"
      and "sync_file w = Corrupt \<longrightarrow> s = getEmptySyncState \<and> sync_file w' = Corrupt"
      and "sync_file w = Missing \<longrightarrow>
             (s = getEmptySyncState \<and> sync_file w' = Missing) \<or>
             ((\<exists>t. lastSync s = Some t) \<and> sync_file w' = Valid s)"
    for s b w'
    using that by blast
  show ?thesis
  proof (cases "sync_file w = Corrupt")
    case True
    then have "readSyncState timeoutMs bypassCache w =
        (Inr (getEmptySyncState, False), released lockId w1)"
      using f by (simp add: readSyncState_def miss assms(3))
    then show ?thesis
      by (rule concl) (use True f e in simp_all)
  next
    case False
    with assms(1) have m: "sync_file w = Missing" by simp
    from writeSyncState_cases [of timeoutMs getEmptySyncState False w1]
    show ?thesis
    proof (elim disjE exE conjE)
      fix err w2
      assume wr: "writeSyncState timeoutMs getEmptySyncState False w1 = (Inl err, w2)"
        and f2: "sync_file w2 = sync_file w1"
      then have "readSyncState timeoutMs bypassCache w =
          (Inr (getEmptySyncState, False), released lockId w2)"
        using f m by (simp add: readSyncState_def miss assms(3))
      then show ?thesis
        by (rule concl) (use m f f2 e in simp_all)
    next
      fix w2
      let ?s = "getEmptySyncState\<lparr>lastSync := Some (clock w1)\<rparr>"
      assume wr: "writeSyncState timeoutMs getEmptySyncState False w1 = (Inr ?s, w2)"
        and f2: "sync_file w2 = Valid ?s"
      then have "readSyncState timeoutMs bypassCache w = (Inr (?s, True), released lockId w2)"
        using f m by (simp add: readSyncState_def miss assms(3))
      then show ?thesis
        by (rule concl) (use m f2 e in simp_all)
    qed
  qed
qed

theorem readSyncState_missing_or_corrupt_witness:
  "sync_file fresh_world = Missing \<and> cache_hit fresh_world = None \<and>
   fst (acquireLock 5000 fresh_world) = Inr (Some 0) \<and>
   (\<exists>s shared w'.
      readSyncState 5000 False fresh_world = (Inr (s, shared), w') \<and>
      s\<lparr>lastSync := None\<rparr> = getEmptySyncState \<and>
      ((s = getEmptySyncState \<and> sync_file w' = Missing) \<or>
       ((\<exists>t. lastSync s = Some t) \<and> sync_file w' = Valid s))) \<and>
   sync_file (fresh_world\<lparr>sync_file := Corrupt\<rparr>) = Corrupt \<and>
   cache_hit (fresh_world\<lparr>sync_file := Corrupt\<rparr>) = None \<and>
   fst (acquireLock 5000 (fresh_world\<lparr>sync_file := Corrupt\<rparr>)) = Inr (Some 0) \<and>
   (\<exists>shared w'.
      readSyncState 5000 False (fresh_world\<lparr>sync_file := Corrupt\<rparr>) =
        (Inr (getEmptySyncState, shared), w') \<and>
      sync_file w' = Corrupt)"
proof -
  let ?c = "fresh_world\<lparr>sync_file := Corrupt\<rparr>"
  have free: "lock_free fresh_world" "lock_free ?c"
    and sound: "fs_faults fresh_world = []" "fs_ms fresh_world = 0" "fs_faults ?c = []"
      "fs_ms ?c = 0"
    and m: "sync_file fresh_world = Missing" and c: "sync_file ?c = Corrupt"
    and h: "cache_hit fresh_world = None" "cache_hit ?c = None"
    and u: "uuid_ctr fresh_world = 0" "uuid_ctr ?c = 0"
    by (simp_all add: fresh_world_def lock_free_def cache_hit_def)
  note a1 = acquireLock_free [OF free(1) sound(1,2), of 5000, unfolded u]
  note a2 = acquireLock_free [OF free(2) sound(3,4), of 5000, unfolded u]
  from m have m': "sync_file fresh_world = Missing \<or> sync_file fresh_world = Corrupt" by simp
  from c have c': "sync_file ?c = Missing \<or> sync_file ?c = Corrupt" by simp
  from h have h': "False \<or> cache_hit fresh_world = None" "False \<or> cache_hit ?c = None"
    by simp_all
  from readSyncState_missing_or_corrupt [OF m' h'(1) a1] m
  have 1: "\<exists>s shared w'.
      readSyncState 5000 False fresh_world = (Inr (s, shared), w') \<and>
      s\<lparr>lastSync := None\<rparr> = getEmptySyncState \<and>
      ((s = getEmptySyncState \<and> sync_file w' = Missing) \<or>
       ((\<exists>t. lastSync s = Some t) \<and> sync_file w' = Valid s))"
    by simp
  from readSyncState_missing_or_corrupt [OF c' h'(2) a2] c
  have 2: "\<exists>shared w'.
      readSyncState 5000 False ?c = (Inr (getEmptySyncState, shared), w') \<and>
      sync_file w' = Corrupt"
    by auto
  from a1 a2 have 3: "fst (acquireLock 5000 fresh_world) = Inr (Some 0)"
    "fst (acquireLock 5000 ?c) = Inr (Some 0)"
    by simp_all
  from 1 2 3 m c h show ?thesis by (simp only: simp_thms)
qed

text \<open>
  Claim C10 says that \<^verbatim>\<open>readSyncState\<close> creates the sync file when there is none. The
  code calls \<^verbatim>\<open>writeSyncState\<close> for that, but from inside the section in which it holds
  the file's lock, and \<^verbatim>\<open>writeSyncState\<close> asks for the same lock: the write times out, the
  error is swallowed by the \<^verbatim>\<open>catch\<close> of \<^verbatim>\<open>readSyncState\<close>, and the file is still missing
  afterwards. Evaluated in a fresh process with the default time-out:
\<close>

theorem readSyncState_does_not_create_file:
  "fst (readSyncState DEFAULT_LOCK_TIMEOUT_MS False fresh_world) = Inr (getEmptySyncState, False) \<and>
   sync_file (snd (readSyncState DEFAULT_LOCK_TIMEOUT_MS False fresh_world)) = Missing \<and>
   lock_file (snd (readSyncState DEFAULT_LOCK_TIMEOUT_MS False fresh_world)) = None \<and>
   syncStateCache (snd (readSyncState DEFAULT_LOCK_TIMEOUT_MS False fresh_world)) = None"
proof -
  have "\<exists>c. clock fresh_world \<le> c \<and>
          readSyncState DEFAULT_LOCK_TIMEOUT_MS False fresh_world =
            (Inr (getEmptySyncState, False),
             fresh_world\<lparr>uuid_ctr := Suc (Suc (uuid_ctr fresh_world)), clock := c\<rparr>)"
    by (rule readSyncState_missing)
       (simp_all add: fresh_world_def lock_free_def cache_hit_def DEFAULT_LOCK_TIMEOUT_MS_def)
  then show ?thesis by (auto simp: fresh_world_def)
qed

section \<open>The derived indexes after a mapping is moved to another task\<close>

lemma updateSyncedTimestamp_hit:
  "\<lbrakk>lock_free w; cache_hit w = Some s; fs_faults w = []; fs_ms w = 0\<rbrakk> \<Longrightarrow>
   updateSyncedTimestamp timeoutMs m t None w =
     (Inr (),
      w\<lparr>uuid_ctr := Suc (uuid_ctr w),
         sync_file := Valid ((updateSyncedTimestamp_state m t (clock w) s)\<lparr>lastSync := Some (clock w)\<rparr>),
         syncStateCache := Some ((updateSyncedTimestamp_state m t (clock w) s)\<lparr>lastSync := Some (clock w)\<rparr>),
         cacheTimestamp := Some (clock w)\<rparr>)"
  by (simp add: updateSyncedTimestamp_def io_bind_def io_return_def readSyncState_hit
      writeSyncState_free)

lemma updateSyncedTimestamp_valid:
  "\<lbrakk>lock_free w; cache_hit w = None; sync_file w = Valid s; fs_faults w = []; fs_ms w = 0\<rbrakk> \<Longrightarrow>
   updateSyncedTimestamp timeoutMs m t None w =
     (Inr (),
      w\<lparr>uuid_ctr := Suc (Suc (uuid_ctr w)),
         sync_file := Valid ((updateSyncedTimestamp_state m t (clock w) s)\<lparr>lastSync := Some (clock w)\<rparr>),
         syncStateCache := Some ((updateSyncedTimestamp_state m t (clock w) s)\<lparr>lastSync := Some (clock w)\<rparr>),
         cacheTimestamp := Some (clock w)\<rparr>)"
  by (simp add: updateSyncedTimestamp_def io_bind_def io_return_def readSyncState_valid
      writeSyncState_free lock_free_def)

definition synced_world :: world where
  "synced_world = fresh_world\<lparr>sync_file := Valid getEmptySyncState\<rparr>"

definition remapped_world :: world where
  "remapped_world =
     snd (updateSyncedTimestamp DEFAULT_LOCK_TIMEOUT_MS ''m1'' (Str ''t2'') None
       (snd (updateSyncedTimestamp DEFAULT_LOCK_TIMEOUT_MS ''m1'' (Str ''t1'') None synced_world)))"

definition mapped_state :: sync_state where
  "mapped_state =
     \<lparr>version = ''1.0'', lastSync = Some 1700000000000,
      taskMappings =
        [\<lparr>tm_mondayItemId = ''m1'', tm_taskmasterTaskId = Some ''t1'',
          tm_timestamp = Some 1700000000000, tm_taskId = None, tm_mondayUpdateId = None,
          tm_lastSynced = None\<rparr>],
      mondayToTaskMaster = [(''m1'', Str ''t1'')],
      taskMasterToMonday = [(''t1'', [''m1''])],
      items = [(''m1'', \<lparr>ie_taskmasterTaskId = Str ''t1'', ie_timestamp = 1700000000000\<rparr>)]\<rparr>"

definition remapped_state :: sync_state where
  "remapped_state =
     \<lparr>version = ''1.0'', lastSync = Some 1700000000000,
      taskMappings =
        [\<lparr>tm_mondayItemId = ''m1'', tm_taskmasterTaskId = Some ''t2'',
          tm_timestamp = Some 1700000000000, tm_taskId = None, tm_mondayUpdateId = None,
          tm_lastSynced = None\<rparr>],
      mondayToTaskMaster = [(''m1'', Str ''t2'')],
      taskMasterToMonday = [(''t1'', [''m1'']), (''t2'', [''m1''])],
      items = [(''m1'', \<lparr>ie_taskmasterTaskId = Str ''t2'', ie_timestamp = 1700000000000\<rparr>)]\<rparr>"

text \<open>
  Claim C6 says that after every mutating operation the two indexes are the ones that
  can be recomputed from \<open>taskMappings\<close>. \<^verbatim>\<open>updateSyncedTimestamp\<close> on an item that is
  already mapped to another task rewrites the entry and the forward index, and adds the
  item to the new task's array, but leaves it in the old task's array. After mapping
  \<open>m1\<close> to \<open>t1\<close> and then to \<open>t2\<close> the file holds one entry, \<open>(m1, t2)\<close>, and a reverse index
  that still lists \<open>m1\<close> under \<open>t1\<close>.
\<close>

theorem updateSyncedTimestamp_leaves_stale_reverse_index:
  "sync_file remapped_world = Valid remapped_state \<and>
   map_of (taskMasterToMonday remapped_state) ''t1'' = Some [''m1''] \<and>
   (''m1'', ''t1'') \<notin> mapping_pairs remapped_state \<and>
   \<not> indexes_consistent remapped_state"
proof -
  let ?w1 = "synced_world\<lparr>uuid_ctr := Suc (Suc (uuid_ctr synced_world)),
         sync_file := Valid mapped_state, syncStateCache := Some mapped_state,
         cacheTimestamp := Some (clock synced_world)\<rparr>"
  have s1: "(updateSyncedTimestamp_state ''m1'' (Str ''t1'') (clock synced_world) getEmptySyncState)
              \<lparr>lastSync := Some (clock synced_world)\<rparr> = mapped_state"
    by (simp add: updateSyncedTimestamp_state_def getEmptySyncState_def mapped_state_def
        synced_world_def fresh_world_def Let_def)
  have s2: "(updateSyncedTimestamp_state ''m1'' (Str ''t2'') (clock ?w1) mapped_state)
              \<lparr>lastSync := Some (clock ?w1)\<rparr> = remapped_state"
    by (simp add: updateSyncedTimestamp_state_def remapped_state_def mapped_state_def
        synced_world_def fresh_world_def Let_def)
  have "updateSyncedTimestamp DEFAULT_LOCK_TIMEOUT_MS ''m1'' (Str ''t1'') None synced_world =
      (Inr (),
       synced_world\<lparr>uuid_ctr := Suc (Suc (uuid_ctr synced_world)),
         sync_file := Valid ((updateSyncedTimestamp_state ''m1'' (Str ''t1'') (clock synced_world)
                        getEmptySyncState)\<lparr>lastSync := Some (clock synced_world)\<rparr>),
         syncStateCache := Some ((updateSyncedTimestamp_state ''m1'' (Str ''t1'') (clock synced_world)
                        getEmptySyncState)\<lparr>lastSync := Some (clock synced_world)\<rparr>),
         cacheTimestamp := Some (clock synced_world)\<rparr>)"
    by (rule updateSyncedTimestamp_valid)
       (simp_all add: synced_world_def fresh_world_def lock_free_def cache_hit_def)
  then have w1: "snd (updateSyncedTimestamp DEFAULT_LOCK_TIMEOUT_MS ''m1'' (Str ''t1'') None synced_world) = ?w1"
    by (simp only: s1 snd_conv)
  have "updateSyncedTimestamp DEFAULT_LOCK_TIMEOUT_MS ''m1'' (Str ''t2'') None ?w1 =
      (Inr (),
       ?w1\<lparr>uuid_ctr := Suc (uuid_ctr ?w1),
         sync_file := Valid ((updateSyncedTimestamp_state ''m1'' (Str ''t2'') (clock ?w1) mapped_state)
                        \<lparr>lastSync := Some (clock ?w1)\<rparr>),
         syncStateCache := Some ((updateSyncedTimestamp_state ''m1'' (Str ''t2'') (clock ?w1) mapped_state)
                        \<lparr>lastSync := Some (clock ?w1)\<rparr>),
         cacheTimestamp := Some (clock ?w1)\<rparr>)"
    by (rule updateSyncedTimestamp_hit)
       (simp_all add: synced_world_def fresh_world_def lock_free_def cache_hit_def)
  then have content: "sync_file remapped_world = Valid remapped_state"
    unfolding remapped_world_def w1 by (simp only: s2 snd_conv) simp
  have stale: "(''m1'', ''t1'') \<in> reverse_pairs remapped_state"
    by (simp add: reverse_pairs_def remapped_state_def)
  have gone: "(''m1'', ''t1'') \<notin> mapping_pairs remapped_state"
    by (simp add: mapping_pairs_def remapped_state_def)
  from stale gone have "reverse_pairs remapped_state \<noteq> mapping_pairs remapped_state"
    by blast
  with content gone show ?thesis
    by (simp add: indexes_consistent_def remapped_state_def)
qed

section \<open>The store operations on a quiescent store\<close>


lemma cache_hit_cached: "cache_hit w = Some c \<Longrightarrow> syncStateCache w = Some c"
  by (auto simp: cache_hit_def split: option.splits if_splits)

lemma untouched_refl [simp]: "untouched w w"
  by (simp add: untouched_def)

lemma untouched_trans: "untouched w w1 \<Longrightarrow> untouched w1 w2 \<Longrightarrow> untouched w w2"
  by (simp add: untouched_def)


lemma readSyncState_quiet:
  assumes "store_ok w" "timeoutMs < 99900"
  shows "\<exists>sh w'. readSyncState timeoutMs False w = (Inr (stored w, sh), w') \<and>
                 store_ok w' \<and> untouched w w'"
proof (cases "cache_hit w")
  case (Some c)
  then have "syncStateCache w = Some c" by (rule cache_hit_cached)
  with assms(1) have "stored w = c" by (simp add: store_ok_def coherent_def stored_def)
  with Some assms(1) show ?thesis by (auto simp: readSyncState_hit)
next
  case None
  from assms(1) have free: "lock_free w" and sound: "fs_faults w = []" "fs_ms w = 0"
    by (simp_all add: store_ok_def)
  show ?thesis
  proof (cases "sync_file w")
    case Missing
    from readSyncState_missing [OF free _ Missing assms(2) sound, of False] None
    obtain c where "readSyncState timeoutMs False w =
        (Inr (getEmptySyncState, False), w\<lparr>uuid_ctr := Suc (Suc (uuid_ctr w)), clock := c\<rparr>)"
      by auto
    moreover have "store_ok (w\<lparr>uuid_ctr := Suc (Suc (uuid_ctr w)), clock := c\<rparr>)"
      using assms(1) by (auto simp: store_ok_def lock_free_def coherent_def stored_def)
    ultimately show ?thesis using Missing by (auto simp: stored_def untouched_def)
  next
    case Corrupt
    from readSyncState_corrupt [OF free _ Corrupt sound, of False] None
    have "readSyncState timeoutMs False w =
        (Inr (getEmptySyncState, False), w\<lparr>uuid_ctr := Suc (uuid_ctr w)\<rparr>)"
      by auto
    moreover have "store_ok (w\<lparr>uuid_ctr := Suc (uuid_ctr w)\<rparr>)"
      using assms(1) by (auto simp: store_ok_def lock_free_def coherent_def stored_def)
    ultimately show ?thesis using Corrupt by (auto simp: stored_def untouched_def)
  next
    case (Valid s)
    from readSyncState_valid [OF free _ Valid sound, of False] None
    have "readSyncState timeoutMs False w =
        (Inr (s, True), w\<lparr>uuid_ctr := Suc (uuid_ctr w), syncStateCache := Some s,
                          cacheTimestamp := Some (clock w)\<rparr>)"
      by auto
    moreover have "store_ok (w\<lparr>uuid_ctr := Suc (uuid_ctr w), syncStateCache := Some s,
                          cacheTimestamp := Some (clock w)\<rparr>)"
      using assms(1) Valid by (simp add: store_ok_def lock_free_def coherent_def stored_def)
    ultimately show ?thesis using Valid by (auto simp: stored_def untouched_def)
  qed
qed


text \<open>A read-only operation of the manager returns its query on the stored state.\<close>

lemma store_query_quiet:
  assumes "store_ok w" "timeoutMs < 99900"
  shows "\<exists>w'. io_bind (readSyncState timeoutMs False) (\<lambda>(s, shared). io_return (q s)) w =
                (Inr (q (stored w)), w') \<and> store_ok w' \<and> untouched w w'"
proof -
  from readSyncState_quiet [OF assms] obtain sh w' where
    "readSyncState timeoutMs False w = (Inr (stored w, sh), w')" "store_ok w'" "untouched w w'"
    by blast
  then show ?thesis by (simp add: io_bind_def io_return_def)
qed

lemmas getMondayItemIdsForTask_quiet =
  store_query_quiet [where q = "getMondayItemIdsForTask_state t" for t,
    folded getMondayItemIdsForTask_def]

lemmas getLastSyncedTimestamp_quiet =
  store_query_quiet [where q = "getLastSyncedTimestamp_state m" for m,
    folded getLastSyncedTimestamp_def]

lemmas getUpdateIdForTask_quiet =
  store_query_quiet [where q = "getUpdateIdForTask_state t m" for t m,
    folded getUpdateIdForTask_def]


lemma items_updateSyncedTimestamp_state [simp]:
  "items (updateSyncedTimestamp_state m t ts s) =
     AList.update m \<lparr>ie_taskmasterTaskId = t, ie_timestamp = ts\<rparr> (items s)"
  by (simp add: updateSyncedTimestamp_state_def Let_def)


lemma removeMondayItem_none: "removeMondayItem timeoutMs None w = (Inl (Error ''Monday item ID is required''), w)"
  by (simp add: removeMondayItem_def io_throw_def)



text \<open>A call of the client leaves the store and the local files alone.\<close>

lemma remote_call_store:
  "remote_call call body w = (r, w') \<Longrightarrow>
   sync_file w' = sync_file w \<and> syncStateCache w' = syncStateCache w \<and>
   lock_file w' = lock_file w \<and> activeLocks w' = activeLocks w \<and>
   tasks_json w' = tasks_json w \<and> generate_runs w' = generate_runs w \<and>
   generate_fails w' = generate_fails w \<and> fs_faults w' = fs_faults w \<and> fs_ms w' = fs_ms w \<and>
   tasksCache w' = tasksCache w"
  by (auto simp: remote_call_def Let_def split: option.splits prod.splits)

lemma remote_call_store_ok:
  "store_ok w \<Longrightarrow> store_ok (snd (remote_call call body w))"
  using remote_call_store [of call body w "fst (remote_call call body w)" "snd (remote_call call body w)"]
  by (simp add: store_ok_def lock_free_def coherent_def stored_def)

lemma remote_call_stored:
  "stored (snd (remote_call call body w)) = stored w"
  using remote_call_store [of call body w "fst (remote_call call body w)" "snd (remote_call call body w)"]
  by (simp add: stored_def)

lemma remote_read_untouched:
  "(\<And>r. snd (body r) = r) \<Longrightarrow> untouched w (snd (remote_call call body w))"
  by (auto simp: remote_call_def Let_def untouched_def split: option.splits prod.splits)
     (metis snd_conv)

section \<open>Evaluating concrete runs\<close>

lemma new_item_id_1: "new_item_id (Suc 0) = ''item-1''"
  by (simp add: new_item_id_def string_of_nat.simps digit_def)

lemma array_index_letter [simp]: "digit_value c = None \<Longrightarrow> array_index (c # cs) = None"
  by (simp add: array_index_def)

lemmas eval_io = io_bind_def io_return_def io_throw_def io_catch_def Let_def

lemmas eval_store =
  readSyncState_valid readSyncState_hit writeSyncState_free lock_free_def cache_hit_def
  removeMondayItem_none getMondayItemIdsForTask_def getMondayItemIdsForTask_state_def
  updateSyncedTimestamp_def updateSyncedTimestamp_state_def getUpdateIdForTask_def
  getUpdateIdForTask_state_def removeMondayItem_def removeMondayItem_state_def
  own_entries_def digit_value_def

lemmas eval_remote =
  remote_call_def getBoardGroups_def getItems_def getItem_def createItem_def
  updateItemName_def updateItemColumnValues_def deleteItem_def delete_update_def readTasks_def
  readTasks_file_def forget_item_of_cached_task_def CACHE_TTL_MS_def
  DEFAULT_CACHE_TTL_MS_def new_item_id_1 set_columns_def colval_text_def

section \<open>Pull: how a changed pair is classified\<close>



















definition pull_columns :: column_mapping where
  "pull_columns =
     \<lparr>cm_taskId = Some ''text_id'', cm_status = Some ''status'', cm_priority = None,
      cm_dependencies = None, cm_complexity = None, cm_description = None, cm_details = None,
      cm_testStrategy = None\<rparr>"

definition pull_cfg :: pull_config where
  "pull_cfg =
     \<lparr>pl_mondayGroupIds = [''g1''], pl_columnMapping = pull_columns, pl_status_mappings = [],
      pl_priority_mappings = []\<rparr>"

text \<open>
  The item R9 of task 9 as the board has it, renamed 5 s after the last sync of the pair,
  and as \<^verbatim>\<open>getItems\<close> returns it; the task \<^verbatim>\<open>mapItemToTask\<close> makes of it.
\<close>

definition item9 :: monday_item where
  "item9 =
     \<lparr>item_id = ''R9'', item_name = ''Remote title'', item_group = ''g1'',
      column_values = [\<lparr>col_id = ''text_id'', col_text = ''9''\<rparr>],
      updated_at = Some 1700000005000\<rparr>"


definition remote9 :: task where
  "remote9 =
     \<lparr>task_id = Some (Str ''9''), title = Some ''Remote title'', status = None, priority = None,
      dependencies = Some [], description = None, details = None, testStrategy = None,
      complexity = None, monday_item_id = Some ''R9'', subtasks = Some []\<rparr>"

text \<open>
  The local task 9, retitled since the last sync, with the id as a string and with the
  id as a number, and the sync states in which it is mapped to R9.
\<close>

definition local9 :: "id_value \<Rightarrow> task" where
  "local9 i =
     \<lparr>task_id = Some i, title = Some ''Local title'', status = None, priority = None,
      dependencies = Some [], description = None, details = None, testStrategy = None,
      complexity = None, monday_item_id = Some ''R9'', subtasks = Some []\<rparr>"

definition state9 :: "id_value \<Rightarrow> sync_state" where
  "state9 i =
     \<lparr>version = ''1.0'', lastSync = Some 1700000000000,
      taskMappings =
        [\<lparr>tm_mondayItemId = ''R9'', tm_taskmasterTaskId = Some ''9'',
          tm_timestamp = Some 1700000000000, tm_taskId = None, tm_mondayUpdateId = None,
          tm_lastSynced = None\<rparr>],
      mondayToTaskMaster = [(''R9'', i)],
      taskMasterToMonday = [(''9'', [''R9''])],
      items = [(''R9'', \<lparr>ie_taskmasterTaskId = i, ie_timestamp = 1700000000000\<rparr>)]\<rparr>"

definition world9 :: "id_value \<Rightarrow> world" where
  "world9 i =
     \<lparr>clock = 1700000009000, uuid_ctr = 0, fs_ms = 0, fs_faults = [], lock_file = None,
      activeLocks = None, sync_file = Valid (state9 i), syncStateCache = None,
      cacheTimestamp = None, groupCache = None, tasks_json = TasksFile True [Some (local9 i)],
      tasksCache = None, generate_fails = False, generate_runs = 0,
      remote = quiet_remote\<lparr>board_items := [item9]\<rparr>\<rparr>"

definition conflict9 :: conflict where
  "conflict9 =
     \<lparr>cf_mondayTask = remote9, cf_localTask = local9 (Num 9),
      cf_reason = ''Monday.com item R9 is mapped to local Task 9, but item's Task ID column is 9''\<rparr>"

lemma string_of_nat_9: "string_of_nat 9 = ''9''"
  by (simp add: string_of_nat.simps digit_def)








lemmas eval_pull =
  pullSync_def fetchMondayItems_def compareItemsWithTasks_def compare_item_def mapItemToTask_def
  mapItemToTask_column_def taskMap_def mondayItemMap_def tasksAreDifferent_def deps_def
  findOrphanedLocalTasks_def apply_changes_def put_updated_def handleOrphanedTasks_def
  regenerateTaskMasterFiles_def writeTasks_def getLastSyncedTimestamp_def id_text_def truthy_def
  default_pull_options_def pull_cfg_def pull_columns_def item9_def local9_def remote9_def
  conflict9_def string_of_nat_9 world9_def state9_def quiet_remote_def




lemma pull_string_id_tasks:
  "tasks_json (snd (pullSync pull_cfg default_pull_options (world9 (Str ''9'')))) =
     TasksFile True [Some remote9]"
  by (simp add: eval_pull eval_io eval_store eval_remote)





section \<open>Push: what a run records and when it throws\<close>

lemma syncTask_returns:
  assumes "truthy_id_opt (task_id t)"
  shows "\<exists>r w'. syncTask cfg t g w = (Inr r, w') \<and> action r \<noteq> Recreated"
proof (cases "syncTask_body cfg t g w")
  case (Pair r w')
  show ?thesis
  proof (cases r)
    case (Inl e)
    with Pair assms show ?thesis
      by (simp add: syncTask_def io_catch_def io_return_def error_result_def)
  next
    case (Inr res)
    with Pair have "action res \<noteq> Recreated"
      by (auto simp: syncTask_body_def io_bind_def io_return_def io_throw_def
          split: prod.splits sum.splits list.splits)
    with Pair Inr assms show ?thesis
      by (simp add: syncTask_def io_catch_def)
  qed
qed


lemma checkItemExists_id: "task_id (snd (fst (checkItemExists index t w))) = task_id t"
  by (auto simp: checkItemExists_def split: prod.splits sum.splits)

lemma the_id_cong: "task_id t' = task_id t \<Longrightarrow> the_id t' = the_id t"
  by (simp add: the_id_def)

lemma record_ids_record_result:
  "action result \<noteq> Recreated \<Longrightarrow>
   record_ids (record_result t result results) \<in>
     {xs. length xs = Suc (length (record_ids results)) \<and>
          set xs = insert (the_id t) (set (record_ids results))}"
  by (cases "action result") (auto simp: record_result_def record_ids_def)

lemma record_result_keeps:
  "action result \<noteq> Recreated \<Longrightarrow>
   recreated (record_result t result results) = recreated results \<and>
   deleted (record_result t result results) = deleted results \<and>
   dryRun (record_result t result results) = dryRun results"
  by (cases "action result") (auto simp: record_result_def)

text \<open>
  The body of the loop for a task object with an id always adds one entry for its task
  and never throws.
\<close>

lemma pushSync_task_records:
  assumes "truthy_id_opt (task_id t)"
  shows "\<exists>results' w'. pushSync_task cfg d g index t results w = (Inr results', w') \<and>
           length (record_ids results') = Suc (length (record_ids results)) \<and>
           set (record_ids results') = insert (the_id t) (set (record_ids results)) \<and>
           recreated results' = recreated results \<and> deleted results' = deleted results"
proof -
  obtain warning t' w1 where chk: "checkItemExists index t w = ((warning, t'), w1)"
    by (metis prod.collapse)
  then have id: "task_id t' = task_id t"
    using checkItemExists_id [of index t w] by simp
  with assms have "truthy_id_opt (task_id t')" by simp
  from syncTask_returns [OF this, of cfg g w1] obtain r w2 where
    st: "syncTask cfg t' g w1 = (Inr r, w2)" "action r \<noteq> Recreated"
    by blast
  have "pushSync_task cfg d g index t results w =
      (Inr (record_result t' r results), verifyCreated d r w2)"
    using chk st by (simp add: pushSync_task_def io_catch_def)
  with record_ids_record_result [OF st(2), of t' results] record_result_keeps [OF st(2), of t' results]
    the_id_cong [OF id]
  show ?thesis by auto
qed

text \<open>
  The loop returns when the array has no \<^verbatim>\<open>null\<close> element, with one entry for every task
  object that has an id; it throws the \<^verbatim>\<open>TypeError\<close> of the first \<^verbatim>\<open>null\<close> element
  otherwise.
\<close>

lemma pushSync_loop_records:
  "pushSync_loop cfg d g index ts results w = (Inr results', w') \<Longrightarrow>
   None \<notin> set ts \<and>
   length (record_ids results') =
     length (record_ids results) +
     length (filter (\<lambda>t. truthy_id_opt (task_id t)) (task_objects ts)) \<and>
   set (record_ids results') =
     set (record_ids results) \<union> the_id ` {t \<in> set (task_objects ts). truthy_id_opt (task_id t)} \<and>
   recreated results' = recreated results \<and> deleted results' = deleted results"
proof (induction ts arbitrary: results w index)
  case Nil
  then show ?case by simp
next
  case (Cons entry ts)
  show ?case
  proof (cases entry)
    case None
    with Cons.prems show ?thesis by simp
  next
    case (Some t)
    show ?thesis
    proof (cases "truthy_id_opt (task_id t)")
      case False
      with Cons.prems Some
      have "pushSync_loop cfg d g (Suc index) ts results w = (Inr results', w')" by simp
      from Cons.IH [OF this] False Some show ?thesis by auto
    next
      case True
      from pushSync_task_records [OF True, of cfg d g index results w] obtain r1 w1 where
        task: "pushSync_task cfg d g index t results w = (Inr r1, w1)"
        "length (record_ids r1) = Suc (length (record_ids results))"
        "set (record_ids r1) = insert (the_id t) (set (record_ids results))"
        "recreated r1 = recreated results" "deleted r1 = deleted results"
        by blast
      with True Cons.prems Some
      have "pushSync_loop cfg d g (Suc index) ts r1 w1 = (Inr results', w')" by simp
      from Cons.IH [OF this] task(2-5) True Some show ?thesis by auto
    qed
  qed
qed



lemma deleteOrphans_records:
  "deleteOrphans os results w = (results', w') \<Longrightarrow>
   record_ids results' = record_ids results \<and> recreated results' = recreated results \<and>
   created results' = created results \<and> updated results' = updated results"
proof (induction os arbitrary: results w)
  case Nil
  then show ?case by simp
next
  case (Cons item rest)
  from Cons.prems show ?case
    by (auto simp: record_ids_def orphan_error_def split: prod.splits sum.splits bool.splits
        dest!: Cons.IH)
qed

text \<open>The orphan scan throws only what its read of the sync state throws.\<close>

lemma handleOrphanedItems_records:
  assumes "handleOrphanedItems ts d results w = (r, w')"
  shows "(case r of
            Inl e \<Rightarrow> fst (readSyncState DEFAULT_LOCK_TIMEOUT_MS False w) = Inl e
          | Inr results' \<Rightarrow> record_ids results' = record_ids results \<and>
              recreated results' = recreated results \<and> created results' = created results \<and>
              updated results' = updated results)"
proof (cases "readSyncState DEFAULT_LOCK_TIMEOUT_MS False w")
  case (Pair x w1)
  show ?thesis
  proof (cases x)
    case (Inl e)
    with Pair assms have "r = Inl e" by (simp add: handleOrphanedItems_def io_bind_def)
    with Pair Inl show ?thesis by simp
  next
    case (Inr p)
    obtain s sh where p: "p = (s, sh)" by (cases p)
    show ?thesis
    proof (cases d)
      case True
      with Pair Inr p assms show ?thesis
        by (auto simp: handleOrphanedItems_def io_bind_def record_ids_def)
    next
      case False
      obtain r1 w2 where del: "deleteOrphans (orphanedItems ts s) results w1 = (r1, w2)"
        by (cases "deleteOrphans (orphanedItems ts s) results w1")
      with Pair Inr p assms False have "r = Inr r1"
        by (simp add: handleOrphanedItems_def io_bind_def)
      with deleteOrphans_records [OF del] show ?thesis by simp
    qed
  qed
qed

section \<open>Push: concrete runs\<close>

definition push_columns :: column_mapping where
  "push_columns =
     \<lparr>cm_taskId = Some ''text_id'', cm_status = Some ''status'', cm_priority = None,
      cm_dependencies = None, cm_complexity = None, cm_description = None, cm_details = None,
      cm_testStrategy = None\<rparr>"

definition push_cfg :: push_config where
  "push_cfg =
     \<lparr>pc_dryRun = False, pc_mondayBoardId = Some ''B1'', pc_mondayGroupIds = Some [''g1''],
      pc_columnMapping = push_columns,
      pc_status_mappings = [], pc_priority_mappings = [], pc_complexityMap = []\<rparr>"

definition default_push_options :: push_options where
  "default_push_options = \<lparr>po_dryRun = None, po_deleteOrphaned = None\<rparr>"

definition plain_task :: "id_value \<Rightarrow> string \<Rightarrow> string option \<Rightarrow> task" where
  "plain_task i name itemId =
     \<lparr>task_id = Some i, title = Some name, status = Some ''pending'', priority = None,
      dependencies = None, description = None, details = None, testStrategy = None,
      complexity = None, monday_item_id = itemId, subtasks = None\<rparr>"

definition task7 :: task where
  "task7 = plain_task (Str ''7'') ''Fix login'' (Some ''R7'')"

definition task8 :: task where
  "task8 = plain_task (Str ''8'') ''Write docs'' None"

definition task9 :: task where
  "task9 = plain_task (Str ''9'') ''Ship it'' None"

text \<open>The state in which task 7 is mapped to the item R7.\<close>

definition state7 :: sync_state where
  "state7 =
     \<lparr>version = ''1.0'', lastSync = Some 1600000000000,
      taskMappings =
        [\<lparr>tm_mondayItemId = ''R7'', tm_taskmasterTaskId = Some ''7'',
          tm_timestamp = Some 1600000000000, tm_taskId = None, tm_mondayUpdateId = None,
          tm_lastSynced = None\<rparr>],
      mondayToTaskMaster = [(''R7'', Str ''7'')],
      taskMasterToMonday = [(''7'', [''R7''])],
      items = [(''R7'', \<lparr>ie_taskmasterTaskId = Str ''7'', ie_timestamp = 1600000000000\<rparr>)]\<rparr>"

definition item7 :: monday_item where
  "item7 =
     \<lparr>item_id = ''R7'', item_name = ''Fix login'', item_group = ''g1'', column_values = [],
      updated_at = Some 1600000000000\<rparr>"

text \<open>
  A fresh process on a sound disk whose calls take no measurable time, with a sync file,
  a \<^verbatim>\<open>tasks.json\<close> that wraps the given array, and a board.
\<close>

definition push_world :: "sync_file \<Rightarrow> task option list \<Rightarrow> remote \<Rightarrow> world" where
  "push_world content ts board =
     \<lparr>clock = 1700000000000, uuid_ctr = 0, fs_ms = 0, fs_faults = [], lock_file = None,
      activeLocks = None, sync_file = content, syncStateCache = None, cacheTimestamp = None,
      groupCache = None, tasks_json = TasksFile True ts, tasksCache = None,
      generate_fails = False, generate_runs = 0, remote = board\<rparr>"

text \<open>Task 7 is mapped to R7, and the board has no item R7.\<close>

definition stale_world :: world where
  "stale_world = push_world (Valid state7) [Some task7] quiet_remote"



text \<open>One task that was never synchronised, an empty board, an empty state.\<close>

definition unsynced_world :: world where
  "unsynced_world = push_world (Valid getEmptySyncState) [Some task8] quiet_remote"

lemmas eval_push =
  pushSync_def getValidGroupIds_def pushSync_task_def checkItemExists_def syncTask_def
  syncTask_body_def updateMondayItem_def createMondayItem_def cleanupPreviousUpdate_def
  record_result_def verifyCreated_def handleOrphanedItems_def orphanedItems_def
  error_result_def message_def id_text_def the_id_def truthy_def mapTaskToColumnValues_def
  set_col_def text_col_def complexityValue_def mapped_or_self_def

lemmas eval_fixtures =
  push_cfg_def push_columns_def default_push_options_def plain_task_def task7_def task8_def
  task9_def state7_def item7_def push_world_def quiet_remote_def getEmptySyncState_def



text \<open>A run that returns accounts for every task that has an id, once.\<close>

lemma pushSync_records:
  assumes "fst (pushSync cfg opts w) = Inr r" and "fst (readTasks w) = Inr ts"
  shows "None \<notin> set ts \<and>
         length (record_ids r) = length (filter (\<lambda>t. truthy_id_opt (task_id t)) (task_objects ts)) \<and>
         set (record_ids r) = the_id ` {t \<in> set (task_objects ts). truthy_id_opt (task_id t)} \<and>
         recreated r = []"
proof -
  obtain w0 where rt: "readTasks w = (Inr ts, w0)"
    using assms(2) by (metis prod.collapse)
  obtain b w1 where gv: "getValidGroupIds cfg w0 = (b, w1)"
    by (metis prod.collapse)
  show ?thesis
  proof (cases b)
    case (Inl e1)
    with rt gv assms(1) show ?thesis by (simp add: pushSync_def io_bind_def Let_def)
  next
    case g: (Inr g)
    obtain d where d: "d = (case po_dryRun opts of Some d \<Rightarrow> d | None \<Rightarrow> pc_dryRun cfg)"
      by simp
    obtain x w2 where loop:
      "pushSync_loop cfg d g 0 ts
         \<lparr>created = [], updated = [], recreated = [], deleted = [], errors = [], dryRun = d\<rparr>
         w1 = (x, w2)"
      by (metis prod.collapse)
    show ?thesis
    proof (cases x)
      case (Inl e2)
      with rt gv g d loop assms(1) show ?thesis
        by (simp add: pushSync_def io_bind_def Let_def)
    next
      case x: (Inr r1)
      have "record_ids \<lparr>created = [], updated = [], recreated = [], deleted = [], errors = [],
                         dryRun = d\<rparr> = []"
        by (simp add: record_ids_def)
      with pushSync_loop_records [OF loop [unfolded x]]
      have r1: "None \<notin> set ts"
        "length (record_ids r1) = length (filter (\<lambda>t. truthy_id_opt (task_id t)) (task_objects ts))"
        "set (record_ids r1) = the_id ` {t \<in> set (task_objects ts). truthy_id_opt (task_id t)}"
        "recreated r1 = []"
        by simp_all
      show ?thesis
      proof (cases "po_deleteOrphaned opts = Some False")
        case True
        with rt gv g d loop x assms(1) have "r = r1"
          by (simp add: pushSync_def io_bind_def io_return_def Let_def)
        with r1 show ?thesis by simp
      next
        case False
        then have run: "pushSync cfg opts w = handleOrphanedItems (task_objects ts) d r1 w2"
          using rt gv g d loop x
          by (cases "po_deleteOrphaned opts") (auto simp: pushSync_def io_bind_def Let_def)
        obtain y w3 where h: "handleOrphanedItems (task_objects ts) d r1 w2 = (y, w3)"
          by (metis prod.collapse)
        with run assms(1) have "y = Inr r" by simp
        with handleOrphanedItems_records [OF h] r1 show ?thesis by simp
      qed
    qed
  qed
qed








section \<open>Push: a mapped item that is gone from the board\<close>

text \<open>No run has an entry under \<^verbatim>\<open>recreated\<close>: \<^verbatim>\<open>syncTask\<close> has no such action.\<close>

lemma pushSync_never_recreates:
  assumes "fst (pushSync cfg opts w) = Inr r"
  shows "recreated r = []"
proof (cases "fst (readTasks w)")
  case (Inl e)
  then have "fst (pushSync cfg opts w) = Inl e"
    by (cases "readTasks w") (simp add: pushSync_def io_bind_def Let_def)
  with assms show ?thesis by simp
next
  case (Inr ts)
  with pushSync_records [OF assms] show ?thesis by simp
qed

text \<open>
  Claim C1, as the code has it. Task 7 is mapped to the item R7, the board has no item
  R7, orphan deletion is on (the default). The existence check sets
  \<^verbatim>\<open>task.monday_item_id\<close> to \<^verbatim>\<open>null\<close> and then asks the state manager to remove that
  \<^verbatim>\<open>null\<close>, which throws; the mapping of R7 stays, \<^verbatim>\<open>syncTask\<close> finds it and updates
  R7, which fails. The run returns task 7 under \<^verbatim>\<open>errors\<close> with an empty \<^verbatim>\<open>recreated\<close>
  list, creates no item, and leaves the mapping of R7 in the sync file.
\<close>

theorem pushSync_missing_item_not_recreated:
  "fst (pushSync push_cfg default_push_options stale_world) =
     Inr \<lparr>created = [], updated = [], recreated = [], deleted = [],
          errors = [\<lparr>ee_mondayItemId = None, ee_taskId = Str ''7'',
                     ee_error = ''Item not found: R7''\<rparr>],
          dryRun = False\<rparr> \<and>
   sync_file (snd (pushSync push_cfg default_push_options stale_world)) = Valid state7 \<and>
   getMondayItemIdsForTask_state (Str ''7'') state7 = [''R7''] \<and>
   board_items (remote (snd (pushSync push_cfg default_push_options stale_world))) = []"
proof -
  have "fst (pushSync push_cfg default_push_options stale_world) =
     Inr \<lparr>created = [], updated = [], recreated = [], deleted = [],
          errors = [\<lparr>ee_mondayItemId = None, ee_taskId = Str ''7'',
                     ee_error = ''Item not found: R7''\<rparr>],
          dryRun = False\<rparr>"
    by (simp add: eval_io eval_store eval_remote eval_push eval_fixtures stale_world_def)
  moreover have "sync_file (snd (pushSync push_cfg default_push_options stale_world)) = Valid state7"
    by (simp add: eval_io eval_store eval_remote eval_push eval_fixtures stale_world_def)
  moreover have "getMondayItemIdsForTask_state (Str ''7'') state7 = [''R7'']"
    by (simp add: getMondayItemIdsForTask_state_def state7_def own_entries_def digit_value_def)
  moreover have
    "board_items (remote (snd (pushSync push_cfg default_push_options stale_world))) = []"
    by (simp add: eval_io eval_store eval_remote eval_push eval_fixtures stale_world_def)
  ultimately show ?thesis by simp
qed

section \<open>Push: the dry-run option of a run\<close>

definition dry_push_options :: push_options where
  "dry_push_options = \<lparr>po_dryRun = Some True, po_deleteOrphaned = None\<rparr>"

text \<open>
  Claim C4, as the code has it. The instance was created without \<^verbatim>\<open>dryRun\<close>, the run is
  invoked with \<^verbatim>\<open>dryRun: true\<close>, task 8 was never synchronised. The option of the run
  reaches the result, the verification and the orphan scan; \<^verbatim>\<open>createMondayItem\<close> and
  \<^verbatim>\<open>updateMondayItem\<close> test the option of the instance. The run answers with
  \<^verbatim>\<open>dryRun: true\<close>, and it has created an item on the board and written its mapping to
  the sync file.
\<close>

theorem pushSync_dry_run_option_mutates:
  "pc_dryRun push_cfg = False \<and> po_dryRun dry_push_options = Some True \<and>
   fst (pushSync push_cfg dry_push_options unsynced_world) =
     Inr \<lparr>created = [\<lparr>pe_taskId = Str ''8'', pe_mondayItemId = Some ''item-1''\<rparr>], updated = [],
          recreated = [], deleted = [], errors = [], dryRun = True\<rparr> \<and>
   board_items (remote unsynced_world) = [] \<and>
   map item_id (board_items (remote (snd (pushSync push_cfg dry_push_options unsynced_world)))) =
     [''item-1''] \<and>
   stored unsynced_world = getEmptySyncState \<and>
   mondayToTaskMaster (stored (snd (pushSync push_cfg dry_push_options unsynced_world))) =
     [(''item-1'', Str ''8'')] \<and>
   \<not> untouched unsynced_world (snd (pushSync push_cfg dry_push_options unsynced_world))"
proof -
  have run: "fst (pushSync push_cfg dry_push_options unsynced_world) =
     Inr \<lparr>created = [\<lparr>pe_taskId = Str ''8'', pe_mondayItemId = Some ''item-1''\<rparr>], updated = [],
          recreated = [], deleted = [], errors = [], dryRun = True\<rparr>"
    by (simp add: eval_io eval_store eval_remote eval_push eval_fixtures unsynced_world_def
        dry_push_options_def)
  have before: "board_items (remote unsynced_world) = []"
    "stored unsynced_world = getEmptySyncState"
    by (simp_all add: unsynced_world_def push_world_def quiet_remote_def stored_def)
  have board:
    "map item_id (board_items (remote (snd (pushSync push_cfg dry_push_options unsynced_world)))) =
       [''item-1'']"
    by (simp add: eval_io eval_store eval_remote eval_push eval_fixtures unsynced_world_def
        dry_push_options_def)
  have state:
    "mondayToTaskMaster (stored (snd (pushSync push_cfg dry_push_options unsynced_world))) =
       [(''item-1'', Str ''8'')]"
    by (simp add: eval_io eval_store eval_remote eval_push eval_fixtures unsynced_world_def
        dry_push_options_def stored_def)
  from before(1) board
  have "remote (snd (pushSync push_cfg dry_push_options unsynced_world)) \<noteq> remote unsynced_world"
    by auto
  then have "\<not> untouched unsynced_world (snd (pushSync push_cfg dry_push_options unsynced_world))"
    by (simp add: untouched_def)
  with run before board state show ?thesis
    by (simp add: push_cfg_def dry_push_options_def)
qed

section \<open>Invariants of a run\<close>

text \<open>
  A computation started where \<open>P\<close> holds ends where \<open>Q\<close> holds of its result, or throws
  where \<open>E\<close> holds.
\<close>

definition hoare ::
  "(world \<Rightarrow> bool) \<Rightarrow> 'a io \<Rightarrow> ('a \<Rightarrow> world \<Rightarrow> bool) \<Rightarrow> (world \<Rightarrow> bool) \<Rightarrow> bool" where
  "hoare P m Q E =
     (\<forall>w. P w \<longrightarrow> (case m w of (Inl e, w') \<Rightarrow> E w' | (Inr x, w') \<Rightarrow> Q x w'))"

text \<open>The store is quiescent and every task of \<open>M\<close> has an item in the reverse index.\<close>

definition mapped_all :: "string set \<Rightarrow> world \<Rightarrow> bool" where
  "mapped_all M w = (store_ok w \<and> (\<forall>t\<in>M. index_mapped t (stored w)))"



lemma hoareI:
  "(\<And>w. P w \<Longrightarrow> (case m w of (Inl e, w') \<Rightarrow> E w' | (Inr x, w') \<Rightarrow> Q x w')) \<Longrightarrow> hoare P m Q E"
  by (simp add: hoare_def)

lemma hoare_result: "hoare P m Q E \<Longrightarrow> P w \<Longrightarrow> m w = (Inr x, w') \<Longrightarrow> Q x w'"
  by (auto simp: hoare_def)

lemma hoare_thrown: "hoare P m Q E \<Longrightarrow> P w \<Longrightarrow> m w = (Inl e, w') \<Longrightarrow> E w'"
  by (auto simp: hoare_def)

lemma hoare_return: "hoare (Q x) (io_return x) Q E"
  by (simp add: hoare_def io_return_def)

lemma hoare_throw: "hoare E (io_throw e) Q E"
  by (simp add: hoare_def io_throw_def)


lemma hoare_catch:
  assumes "hoare P m Q E'" and "\<And>e. hoare E' (h e) Q E"
  shows "hoare P (io_catch m h) Q E"
proof (rule hoareI)
  fix w assume P: "P w"
  show "case io_catch m h w of (Inl e, w') \<Rightarrow> E w' | (Inr x, w') \<Rightarrow> Q x w'"
  proof (cases "m w")
    case (Pair a w1)
    show ?thesis
    proof (cases a)
      case (Inl e)
      with Pair hoare_thrown [OF assms(1) P] have "E' w1" by simp
      with assms(2) [of e] Pair Inl show ?thesis by (simp add: io_catch_def hoare_def)
    next
      case (Inr x)
      with Pair hoare_result [OF assms(1) P] show ?thesis by (simp add: io_catch_def)
    qed
  qed
qed



lemma mapped_all_mono: "mapped_all M w \<Longrightarrow> N \<subseteq> M \<Longrightarrow> mapped_all N w"
  by (auto simp: mapped_all_def)

lemma mapped_all_stored:
  "mapped_all M w \<Longrightarrow> store_ok w' \<Longrightarrow> stored w' = stored w \<Longrightarrow> mapped_all M w'"
  by (simp add: mapped_all_def)

text \<open>The operations of the store and of the client.\<close>

lemma hoare_remote_call:
  "hoare (mapped_all M) (remote_call call body) (\<lambda>x. mapped_all M) (mapped_all M)"
proof (rule hoareI)
  fix w assume "mapped_all M w"
  then have "mapped_all M (snd (remote_call call body w))"
    using remote_call_store_ok [of w call body] remote_call_stored [of call body w]
    by (simp add: mapped_all_def)
  then show "case remote_call call body w of (Inl e, w') \<Rightarrow> mapped_all M w'
             | (Inr x, w') \<Rightarrow> mapped_all M w'"
    by (auto split: prod.splits sum.splits)
qed





lemma index_mapped_lastSync [simp]: "index_mapped x (s\<lparr>lastSync := c\<rparr>) = index_mapped x s"
  by (simp add: index_mapped_def)



lemma hoare_return_if: "(\<And>w. P w \<Longrightarrow> Q x w) \<Longrightarrow> hoare P (io_return x) Q E"
  by (simp add: hoare_def io_return_def)








lemma hoare_deleteItem: "hoare (mapped_all M) (deleteItem m) (\<lambda>x. mapped_all M) E"
  unfolding deleteItem_def
  by (rule hoare_catch [OF hoare_remote_call]) (rule hoare_return_if)






















lemma mapped_all_fields [simp]:
  "mapped_all M (w\<lparr>groupCache := c\<rparr>) = mapped_all M w"
  "mapped_all M (w\<lparr>tasksCache := tc\<rparr>) = mapped_all M w"
  "mapped_all M (w\<lparr>clock := n\<rparr>) = mapped_all M w"
  by (simp_all add: mapped_all_def store_ok_def lock_free_def coherent_def stored_def)

lemma mapped_all_fs_call [simp]: "mapped_all M (fs_call w) = mapped_all M w"
  by (simp add: fs_call_def)












section \<open>Push: a second run\<close>










end
